theory Spec2Isabelle
  imports Main "HOL-Library.Word" "HOL-Library.Signed_Division" "HOL-Library.Sublist"
begin

unbundle bit_operations_syntax

section \<open>Shared data model\<close>

text \<open>
  Go's \<^verbatim>\<open>error\<close> interface: \<^verbatim>\<open>nil\<close> is \<open>None\<close> of \<open>error option\<close>. The two sentinel
  errors the modelled code names are constructors of their own; every other error value
  is identified by its message. A run-time panic, which is no returned error, is carried
  in the same type where a modelled function can panic.
\<close>

datatype error = ErrNoDocuments | ErrCollation | Error string | Panic string

text \<open>
  A document value (\<^verbatim>\<open>bson.Val\<close>): the closed set of typed variants. Doubles and
  decimals are carried as their IEEE bit patterns, an object identifier as its 12 bytes,
  binary data as a subtype byte and the bytes. An element (\<^verbatim>\<open>bson.Elem\<close>) is a key and
  a value, a document (\<^verbatim>\<open>bson.Doc\<close>) an ordered sequence of elements.
\<close>

datatype Val =
    Double "64 word"
  | String string
  | Document "(string \<times> Val) list"
  | Array "Val list"
  | Binary "8 word" "8 word list"
  | Undefined
  | ObjectID "96 word"
  | Boolean bool
  | DateTime "64 word"
  | Null
  | Regex string string
  | DBPointer string "96 word"
  | JavaScript string
  | Symbol string
  | CodeWithScope string "(string \<times> Val) list"
  | Int32 "32 word"
  | Timestamp "32 word" "32 word"
  | Int64 "64 word"
  | Decimal128 "128 word"
  | MinKey
  | MaxKey

type_synonym Elem = "string \<times> Val"
type_synonym Doc = "Elem list"

section \<open>core/dispatch/find.go\<close>

text \<open>
  \<^verbatim>\<open>options.FindOptions\<close>, as \<^verbatim>\<open>options.MergeFindOptions\<close> returns it: every field is
  a pointer or an interface, \<^verbatim>\<open>nil\<close> when the option was not given. \<open>'i\<close> stands for
  \<^verbatim>\<open>interface{}\<close>, \<open>'c\<close> for \<^verbatim>\<open>*options.Collation\<close>. \<^verbatim>\<open>int32\<close> and \<^verbatim>\<open>int64\<close> are words read
  as signed; a \<^verbatim>\<open>time.Duration\<close> is an \<^verbatim>\<open>int64\<close> of nanoseconds. The fields \<^verbatim>\<open>Limit\<close>,
  \<^verbatim>\<open>Max\<close>, \<^verbatim>\<open>Min\<close>, \<^verbatim>\<open>Skip\<close> and \<^verbatim>\<open>Sort\<close> carry the prefix \<open>Find\<close>.
\<close>

datatype CursorType = NonTailable | Tailable | TailableAwait

record ('i, 'c) FindOptions =
  AllowPartialResults :: "bool option"
  BatchSize :: "32 word option"
  Collation :: "'c option"
  Comment :: "string option"
  CursorType :: "CursorType option"
  Hint :: "'i option"
  FindLimit :: "64 word option"
  FindMax :: "'i option"
  MaxAwaitTime :: "64 word option"
  MaxTime :: "64 word option"
  FindMin :: "'i option"
  NoCursorTimeout :: "bool option"
  OplogReplay :: "bool option"
  Projection :: "'i option"
  ReturnKey :: "bool option"
  ShowRecordID :: "bool option"
  FindSkip :: "64 word option"
  Snapshot :: "bool option"
  FindSort :: "'i option"

text \<open>
  \<^verbatim>\<open>command.Find\<close>, passed to \<^verbatim>\<open>dispatch.Find\<close> by value: \<^verbatim>\<open>Opts\<close> are the options of
  the initial find command, \<^verbatim>\<open>CursorOpts\<close> those of the getMore commands of its cursor.
  \<open>'r\<close> is \<^verbatim>\<open>*readpref.ReadPref\<close>, \<open>'s\<close> a \<^verbatim>\<open>*session.Client\<close>.
\<close>

record ('r, 's) Find_cmd =
  Filter :: Doc
  Opts :: "Elem list"
  CursorOpts :: "Elem list"
  ReadPref :: 'r
  Session :: "'s option"

text \<open>\<^verbatim>\<open>description.Server\<close>: only \<^verbatim>\<open>WireVersion.Max\<close> (an \<^verbatim>\<open>int32\<close>) is read.\<close>

record Server =
  WireVersionMax :: "32 word"

text \<open>
  What \<^verbatim>\<open>dispatch.Find\<close> calls and is not part of it: the results of server selection
  and of taking a connection, the read-preference check, session creation, and the
  helpers \<^verbatim>\<open>Collation.ToDocument\<close>, \<^verbatim>\<open>interfaceToElement\<close> and \<^verbatim>\<open>cmd.RoundTrip\<close> (which
  sends the command on the connection taken; \<open>'k\<close> is the \<^verbatim>\<open>command.Cursor\<close> it
  returns).
\<close>

record ('i, 'c, 'r, 's, 'k) FindEnv =
  SelectServer :: "error + Server"
  Connection :: "error option"
  getReadPrefBasedOnTransaction :: "'r \<Rightarrow> 's option \<Rightarrow> error + 'r"
  SupportsSessions :: bool
  NewClientSession :: "error + 's"
  ToDocument :: "'c \<Rightarrow> Doc"
  interfaceToElement :: "string \<Rightarrow> 'i \<Rightarrow> error + Elem"
  RoundTrip :: "('r, 's) Find_cmd \<Rightarrow> error + 'k"

text \<open>
  \<^verbatim>\<open>int64(d / time.Millisecond)\<close>: Go's integer division truncates towards zero.
\<close>

definition durationMilliseconds :: "64 word \<Rightarrow> 64 word" where
  "durationMilliseconds d = word_of_int (sint d sdiv 1000000)"

text \<open>
  Each \<^verbatim>\<open>if fo.X != nil { ... }\<close> block of \<^verbatim>\<open>Find\<close> either returns an error or appends
  elements to \<^verbatim>\<open>cmd.Opts\<close> and to \<^verbatim>\<open>cmd.CursorOpts\<close>: a step is the error, or the two
  lists of elements appended. The blocks follow in the order of the source.
\<close>

type_synonym step = "error + Elem list \<times> Elem list"

definition boolStep :: "string \<Rightarrow> bool option \<Rightarrow> step" where
  "boolStep key v = (case v of None \<Rightarrow> Inr ([], []) | Some b \<Rightarrow> Inr ([(key, Boolean b)], []))"

definition interfaceStep ::
  "('i, 'c, 'r, 's, 'k) FindEnv \<Rightarrow> string \<Rightarrow> 'i option \<Rightarrow> step" where
  "interfaceStep env key v =
     (case v of
        None \<Rightarrow> Inr ([], [])
      | Some x \<Rightarrow> (case interfaceToElement env key x of Inl e \<Rightarrow> Inl e | Inr el \<Rightarrow> Inr ([el], [])))"

definition batchSizeStep :: "('i, 'c) FindOptions \<Rightarrow> step" where
  "batchSizeStep fo =
     (case BatchSize fo of
        None \<Rightarrow> Inr ([], [])
      | Some bs \<Rightarrow>
          Inr ((''batchSize'', Int32 bs) #
                 (if (case FindLimit fo of None \<Rightarrow> False | Some l \<Rightarrow> bs \<noteq> 0 \<and> l \<le>s scast bs)
                  then [(''singleBatch'', Boolean True)] else []),
               [(''batchSize'', Int32 bs)]))"

definition collationStep ::
  "('i, 'c, 'r, 's, 'k) FindEnv \<Rightarrow> Server \<Rightarrow> ('i, 'c) FindOptions \<Rightarrow> step" where
  "collationStep env desc fo =
     (case Collation fo of
        None \<Rightarrow> Inr ([], [])
      | Some c \<Rightarrow>
          if WireVersionMax desc <s 5 then Inl ErrCollation
          else Inr ([(''collation'', Document (ToDocument env c))], []))"

definition commentStep :: "('i, 'c) FindOptions \<Rightarrow> step" where
  "commentStep fo =
     (case Comment fo of None \<Rightarrow> Inr ([], []) | Some c \<Rightarrow> Inr ([(''comment'', String c)], []))"

definition cursorTypeStep :: "('i, 'c) FindOptions \<Rightarrow> step" where
  "cursorTypeStep fo =
     (case CursorType fo of
        None \<Rightarrow> Inr ([], [])
      | Some NonTailable \<Rightarrow> Inr ([], [])
      | Some Tailable \<Rightarrow> Inr ([(''tailable'', Boolean True)], [])
      | Some TailableAwait \<Rightarrow>
          Inr ([(''tailable'', Boolean True), (''awaitData'', Boolean True)], []))"

definition int64Step :: "string \<Rightarrow> 64 word option \<Rightarrow> step" where
  "int64Step key v = (case v of None \<Rightarrow> Inr ([], []) | Some n \<Rightarrow> Inr ([(key, Int64 n)], []))"

definition maxAwaitTimeStep :: "('i, 'c) FindOptions \<Rightarrow> step" where
  "maxAwaitTimeStep fo =
     (case MaxAwaitTime fo of
        None \<Rightarrow> Inr ([], [])
      | Some d \<Rightarrow> Inr ([], [(''maxTimeMS'', Int64 (durationMilliseconds d))]))"

definition maxTimeStep :: "('i, 'c) FindOptions \<Rightarrow> step" where
  "maxTimeStep fo =
     (case MaxTime fo of
        None \<Rightarrow> Inr ([], [])
      | Some d \<Rightarrow> Inr ([(''maxTimeMS'', Int64 (durationMilliseconds d))], []))"

definition Find_steps ::
  "('i, 'c, 'r, 's, 'k) FindEnv \<Rightarrow> Server \<Rightarrow> ('i, 'c) FindOptions \<Rightarrow> step list" where
  "Find_steps env desc fo =
     [ boolStep ''allowPartialResults'' (AllowPartialResults fo),
       batchSizeStep fo,
       collationStep env desc fo,
       commentStep fo,
       cursorTypeStep fo,
       interfaceStep env ''hint'' (Hint fo),
       int64Step ''limit'' (FindLimit fo),
       interfaceStep env ''max'' (FindMax fo),
       maxAwaitTimeStep fo,
       maxTimeStep fo,
       interfaceStep env ''min'' (FindMin fo),
       boolStep ''noCursorTimeout'' (NoCursorTimeout fo),
       boolStep ''oplogReplay'' (OplogReplay fo),
       interfaceStep env ''projection'' (Projection fo),
       boolStep ''returnKey'' (ReturnKey fo),
       boolStep ''showRecordId'' (ShowRecordID fo),
       int64Step ''skip'' (FindSkip fo),
       boolStep ''snapshot'' (Snapshot fo),
       interfaceStep env ''sort'' (FindSort fo) ]"

text \<open>The elements a step appends to \<^verbatim>\<open>cmd.Opts\<close> and to \<^verbatim>\<open>cmd.CursorOpts\<close>.\<close>

fun stepOpts :: "step \<Rightarrow> Elem list" where
  "stepOpts (Inl e) = []"
| "stepOpts (Inr (os, cs)) = os"

fun stepCursorOpts :: "step \<Rightarrow> Elem list" where
  "stepCursorOpts (Inl e) = []"
| "stepCursorOpts (Inr (os, cs)) = cs"

text \<open>
  Where \<^verbatim>\<open>Find\<close> stands when it leaves the option blocks: it has returned the error
  (\<open>Abort\<close>, with the local \<^verbatim>\<open>cmd\<close> as it was at the \<^verbatim>\<open>return\<close>), or it goes on with
  \<^verbatim>\<open>cmd\<close> (\<open>Continue\<close>).
\<close>

datatype ('r, 's) outcome = Abort error "('r, 's) Find_cmd" | Continue "('r, 's) Find_cmd"

fun runStep :: "('r, 's) outcome \<Rightarrow> step \<Rightarrow> ('r, 's) outcome" where
  "runStep (Abort e cmd) st = Abort e cmd"
| "runStep (Continue cmd) (Inl e) = Abort e cmd"
| "runStep (Continue cmd) (Inr (os, cs)) =
     Continue (cmd\<lparr> Opts := Opts cmd @ os, CursorOpts := CursorOpts cmd @ cs \<rparr>)"

definition Find_options ::
  "('i, 'c, 'r, 's, 'k) FindEnv \<Rightarrow> Server \<Rightarrow> ('i, 'c) FindOptions \<Rightarrow> ('r, 's) Find_cmd
     \<Rightarrow> ('r, 's) outcome" where
  "Find_options env desc fo cmd = foldl runStep (Continue cmd) (Find_steps env desc fo)"

text \<open>
  \<^verbatim>\<open>Find\<close> before the option blocks: server selection, the connection, the read
  preference, the implicit session. It returns an error (with the local \<^verbatim>\<open>cmd\<close> at the
  \<^verbatim>\<open>return\<close>), or goes on with the selected server's description and \<^verbatim>\<open>cmd\<close>.
\<close>

definition Find_setup ::
  "('i, 'c, 'r, 's, 'k) FindEnv \<Rightarrow> ('r, 's) Find_cmd
     \<Rightarrow> error \<times> ('r, 's) Find_cmd + Server \<times> ('r, 's) Find_cmd" where
  "Find_setup env cmd =
     (case SelectServer env of
        Inl e \<Rightarrow> Inl (e, cmd)
      | Inr desc \<Rightarrow>
          (case Connection env of
             Some e \<Rightarrow> Inl (e, cmd)
           | None \<Rightarrow>
               (case getReadPrefBasedOnTransaction env (ReadPref cmd) (Session cmd) of
                  Inl e \<Rightarrow> Inl (e, cmd)
                | Inr rp \<Rightarrow>
                    (let cmd1 = cmd\<lparr> ReadPref := rp \<rparr> in
                     if Session cmd1 = None \<and> SupportsSessions env then
                       (case NewClientSession env of
                          Inl e \<Rightarrow> Inl (e, cmd1)
                        | Inr s \<Rightarrow> Inr (desc, cmd1\<lparr> Session := Some s \<rparr>))
                     else Inr (desc, cmd1)))))"

text \<open>
  \<^verbatim>\<open>Find\<close> up to its last line: \<open>Continue cmd\<close> is the command handed to
  \<^verbatim>\<open>cmd.RoundTrip\<close>.
\<close>

definition Find_prepare ::
  "('i, 'c, 'r, 's, 'k) FindEnv \<Rightarrow> ('r, 's) Find_cmd \<Rightarrow> ('i, 'c) FindOptions
     \<Rightarrow> ('r, 's) outcome" where
  "Find_prepare env cmd fo =
     (case Find_setup env cmd of
        Inl (e, c) \<Rightarrow> Abort e c
      | Inr (desc, c) \<Rightarrow> Find_options env desc fo c)"

text \<open>
  \<^verbatim>\<open>func Find(ctx, cmd, topo, selector, clientID, pool, registry, opts...)\<close>: the only
  place a wire message is sent is \<^verbatim>\<open>cmd.RoundTrip\<close> in the last line.
\<close>

definition Find ::
  "('i, 'c, 'r, 's, 'k) FindEnv \<Rightarrow> ('r, 's) Find_cmd \<Rightarrow> ('i, 'c) FindOptions \<Rightarrow> error + 'k" where
  "Find env cmd fo =
     (case Find_prepare env cmd fo of
        Abort e c \<Rightarrow> Inl e
      | Continue c \<Rightarrow> RoundTrip env c)"

text \<open>
  Concrete inputs: a server of wire version \<open>w\<close> on which every step before the option
  blocks succeeds, \<^verbatim>\<open>interfaceToElement\<close> wrapping the value under the key it is given;
  a find command with no options of its own; \<^verbatim>\<open>FindOptions\<close> with no option set.
\<close>

definition testEnv :: "32 word \<Rightarrow> (Val, Doc, string, nat, Elem list \<times> Elem list) FindEnv" where
  "testEnv w =
     \<lparr> SelectServer = Inr \<lparr> WireVersionMax = w \<rparr>,
       Connection = None,
       getReadPrefBasedOnTransaction = (\<lambda>rp s. Inr rp),
       SupportsSessions = True,
       NewClientSession = Inr 1,
       ToDocument = (\<lambda>c. c),
       interfaceToElement = (\<lambda>k v. Inr (k, v)),
       RoundTrip = (\<lambda>c. Inr (Opts c, CursorOpts c)) \<rparr>"

definition noOptions :: "(Val, Doc) FindOptions" where
  "noOptions =
     \<lparr> AllowPartialResults = None, BatchSize = None, Collation = None, Comment = None,
       CursorType = None, Hint = None, FindLimit = None, FindMax = None, MaxAwaitTime = None,
       MaxTime = None, FindMin = None, NoCursorTimeout = None, OplogReplay = None,
       Projection = None, ReturnKey = None, ShowRecordID = None, FindSkip = None,
       Snapshot = None, FindSort = None \<rparr>"

definition findCmd :: "(string, nat) Find_cmd" where
  "findCmd = \<lparr> Filter = [], Opts = [], CursorOpts = [], ReadPref = ''primary'', Session = None \<rparr>"

definition tailableAwaitOptions :: "(Val, Doc) FindOptions" where
  "tailableAwaitOptions =
     noOptions\<lparr> BatchSize := Some 3, CursorType := Some TailableAwait,
                MaxAwaitTime := Some 250000000 \<rparr>"



section \<open>mongo/insertopt/insertopt.go\<close>

text \<open>
  The converted options (\<^verbatim>\<open>option.InsertOptioner\<close>) and their dynamic types, as
  \<^verbatim>\<open>reflect.TypeOf\<close> tells them apart. \<open>'w\<close> is \<^verbatim>\<open>*writeconcern.WriteConcern\<close>.
\<close>

datatype 'w InsertOptioner = OptBypassDocumentValidation bool | OptOrdered bool | OptWriteConcern 'w

datatype Type = TypeOptBypassDocumentValidation | TypeOptOrdered | TypeOptWriteConcern

text \<open>
  A value of the interface \<^verbatim>\<open>One\<close> is \<^verbatim>\<open>nil\<close>, one of the two option types that
  implement it, or a \<^verbatim>\<open>*OneBundle\<close> (a nested bundle). A \<^verbatim>\<open>*OneBundle\<close> is \<^verbatim>\<open>nil\<close> or
  points to a node \<^verbatim>\<open>{option, next}\<close>. Nodes are only ever built in front of existing
  ones, so the lists are finite and acyclic.
\<close>

datatype 'w One = NilOne | BypassDocumentValidation bool | WriteConcern 'w | Bundle "'w OneBundle"
and 'w OneBundle = NilBundle | Node "'w One" "'w OneBundle"

text \<open>\<^verbatim>\<open>ConvertOneOption\<close>; on a bundle it returns \<^verbatim>\<open>nil\<close>.\<close>

fun ConvertOneOption :: "'w One \<Rightarrow> 'w InsertOptioner option" where
  "ConvertOneOption (BypassDocumentValidation b) = Some (OptBypassDocumentValidation b)"
| "ConvertOneOption (WriteConcern wc) = Some (OptWriteConcern wc)"
| "ConvertOneOption (Bundle ob) = None"
| "ConvertOneOption NilOne = None"

text \<open>
  \<^verbatim>\<open>var oneBundle = new(OneBundle)\<close>, the empty node every \<^verbatim>\<open>BundleOne\<close> starts from,
  and \<^verbatim>\<open>BundleOne(opts ...One)\<close>, which puts each option in front of the list.
\<close>

definition oneBundle :: "'w OneBundle" where
  "oneBundle = Node NilOne NilBundle"

definition BundleOne :: "'w One list \<Rightarrow> 'w OneBundle" where
  "BundleOne opts = foldl (\<lambda>head opt. Node opt head) oneBundle opts"

text \<open>The methods \<^verbatim>\<open>ob.BypassDocumentValidation(b)\<close> and \<^verbatim>\<open>ob.WriteConcern(wc)\<close>.\<close>

definition OneBundle_BypassDocumentValidation :: "'w OneBundle \<Rightarrow> bool \<Rightarrow> 'w OneBundle" where
  "OneBundle_BypassDocumentValidation ob b = Node (BypassDocumentValidation b) ob"

definition OneBundle_WriteConcern :: "'w OneBundle \<Rightarrow> 'w \<Rightarrow> 'w OneBundle" where
  "OneBundle_WriteConcern ob wc = Node (WriteConcern wc) ob"

text \<open>
  \<^verbatim>\<open>bundleLength\<close>: the loop runs while \<^verbatim>\<open>ob != nil && ob.option != nil\<close>, with the
  running \<^verbatim>\<open>bundleLen\<close> as accumulator. Go's \<^verbatim>\<open>int\<close> is modelled by \<open>int\<close>.
\<close>

fun bundleLength_loop :: "'w OneBundle \<Rightarrow> int \<Rightarrow> int"
  and bundleLength :: "'w OneBundle \<Rightarrow> int" where
  "bundleLength_loop NilBundle bundleLen = bundleLen"
| "bundleLength_loop (Node NilOne nxt) bundleLen = bundleLen"
| "bundleLength_loop (Node (Bundle converted) nxt) bundleLen =
     bundleLength_loop nxt (bundleLen + bundleLength converted)"
| "bundleLength_loop (Node opt nxt) bundleLen = bundleLength_loop nxt (bundleLen + 1)"
| "bundleLength NilBundle = 0"
| "bundleLength (Node opt nxt) = bundleLength_loop (Node opt nxt) 0"

text \<open>
  A slice of \<^verbatim>\<open>option.InsertOptioner\<close>: each slot is \<^verbatim>\<open>nil\<close> (\<open>None\<close>) or an option.
  A write outside the slice panics: the functions below return \<open>None\<close> for a panic
  and \<open>Some\<close> of the slice otherwise (the returned \<^verbatim>\<open>error\<close> is \<^verbatim>\<open>nil\<close> on every path of
  the source). The inner loop \<^verbatim>\<open>for _, nestedOp := range nestedOptions\<close>:
\<close>

type_synonym 'w slice = "'w InsertOptioner option list"

fun copy_nested :: "'w slice \<Rightarrow> int \<Rightarrow> 'w slice \<Rightarrow> 'w slice option" where
  "copy_nested options startIndex [] = Some options"
| "copy_nested options startIndex (nestedOp # nestedOptions) =
     (if 0 \<le> startIndex \<and> startIndex < int (length options)
      then copy_nested (options[nat startIndex := nestedOp]) (startIndex + 1) nestedOptions
      else None)"

text \<open>
  \<^verbatim>\<open>unbundle\<close> (here \<open>OneBundle_unbundle\<close>): \<^verbatim>\<open>make\<close> gives \<^verbatim>\<open>listLen\<close> nil slots, which
  the loop over the list fills from the back.
\<close>

fun unbundle_loop :: "'w OneBundle \<Rightarrow> 'w slice \<Rightarrow> int \<Rightarrow> 'w slice option"
  and OneBundle_unbundle :: "'w OneBundle \<Rightarrow> 'w slice option" where
  "unbundle_loop NilBundle options index = Some options"
| "unbundle_loop (Node NilOne nxt) options index = Some options"
| "unbundle_loop (Node (Bundle converted) nxt) options index =
     (case OneBundle_unbundle converted of
        None \<Rightarrow> None
      | Some nestedOptions \<Rightarrow>
          (case copy_nested options (index - int (length nestedOptions) + 1) nestedOptions of
             None \<Rightarrow> None
           | Some options' \<Rightarrow> unbundle_loop nxt options' (index - int (length nestedOptions))))"
| "unbundle_loop (Node opt nxt) options index =
     (if 0 \<le> index \<and> index < int (length options)
      then unbundle_loop nxt (options[nat index := ConvertOneOption opt]) (index - 1)
      else None)"
| "OneBundle_unbundle NilBundle = Some []"
| "OneBundle_unbundle (Node opt nxt) =
     (let listLen = bundleLength (Node opt nxt);
          options = replicate (nat listLen) None
      in unbundle_loop (Node opt nxt) options (listLen - 1))"

text \<open>
  \<^verbatim>\<open>Unbundle(deduplicate)\<close>: the loop \<^verbatim>\<open>for i := len(options) - 1; i >= 0; i--\<close> removes
  slot \<^verbatim>\<open>i\<close> when its type is already in \<^verbatim>\<open>optionsSet\<close>.
\<close>

fun reflect_TypeOf :: "'w InsertOptioner option \<Rightarrow> Type option" where
  "reflect_TypeOf None = None"
| "reflect_TypeOf (Some (OptBypassDocumentValidation b)) = Some TypeOptBypassDocumentValidation"
| "reflect_TypeOf (Some (OptOrdered b)) = Some TypeOptOrdered"
| "reflect_TypeOf (Some (OptWriteConcern wc)) = Some TypeOptWriteConcern"

function dedup_loop :: "'w slice \<Rightarrow> int \<Rightarrow> Type option set \<Rightarrow> 'w slice option" where
  "dedup_loop options i optionsSet =
     (if i \<ge> 0 then
        (if i < int (length options) then
           (let optionType = reflect_TypeOf (options ! nat i) in
            if optionType \<in> optionsSet
            then dedup_loop (take (nat i) options @ drop (nat i + 1) options) (i - 1) optionsSet
            else dedup_loop options (i - 1) (insert optionType optionsSet))
         else None)
      else Some options)"
  by pat_completeness auto
termination
  by (relation "measure (\<lambda>(options, i, optionsSet). nat (i + 1))") auto

definition OneBundle_Unbundle :: "'w OneBundle \<Rightarrow> bool \<Rightarrow> 'w slice option" where
  "OneBundle_Unbundle ob deduplicate =
     (case OneBundle_unbundle ob of
        None \<Rightarrow> None
      | Some options \<Rightarrow>
          if \<not> deduplicate then Some options
          else dedup_loop options (int (length options) - 1) {})"


text \<open>
  What the loops of \<^verbatim>\<open>unbundle\<close> gather, as a list: they stop at the first \<^verbatim>\<open>nil\<close>
  option of each list.
\<close>

fun collect :: "'w OneBundle \<Rightarrow> 'w InsertOptioner list" where
  "collect NilBundle = []"
| "collect (Node NilOne nxt) = []"
| "collect (Node (Bundle converted) nxt) = collect nxt @ collect converted"
| "collect (Node (BypassDocumentValidation b) nxt) = collect nxt @ [OptBypassDocumentValidation b]"
| "collect (Node (WriteConcern wc) nxt) = collect nxt @ [OptWriteConcern wc]"

text \<open>
  The claim's words: the options in the order they were added, nested bundles expanded
  in place (a \<^verbatim>\<open>nil\<close> adds no option); and, of a list, the last occurrence of each type.
\<close>

fun added_options :: "'w OneBundle \<Rightarrow> 'w InsertOptioner list"
  and expand :: "'w One \<Rightarrow> 'w InsertOptioner list" where
  "added_options NilBundle = []"
| "added_options (Node opt nxt) = added_options nxt @ expand opt"
| "expand NilOne = []"
| "expand (Bundle ob) = added_options ob"
| "expand (BypassDocumentValidation b) = [OptBypassDocumentValidation b]"
| "expand (WriteConcern wc) = [OptWriteConcern wc]"

fun keep_last :: "('a \<Rightarrow> 'k) \<Rightarrow> 'a list \<Rightarrow> 'a list" where
  "keep_last f [] = []"
| "keep_last f (x # xs) = (if f x \<in> f ` set xs then keep_last f xs else x # keep_last f xs)"

definition TypeOf :: "'w InsertOptioner \<Rightarrow> Type option" where
  "TypeOf x = reflect_TypeOf (Some x)"

text \<open>
  A bundle in which a \<^verbatim>\<open>nil\<close> option stands only where no option was added before it
  (as in the empty node \<open>oneBundle\<close>).
\<close>

fun nil_only_last :: "'w OneBundle \<Rightarrow> bool"
  and nil_only_last_One :: "'w One \<Rightarrow> bool" where
  "nil_only_last NilBundle = True"
| "nil_only_last (Node opt nxt) =
     (nil_only_last_One opt \<and> nil_only_last nxt \<and> (if opt = NilOne then added_options nxt = [] else True))"
| "nil_only_last_One (Bundle ob) = nil_only_last ob"
| "nil_only_last_One NilOne = True"
| "nil_only_last_One (BypassDocumentValidation b) = True"
| "nil_only_last_One (WriteConcern wc) = True"

section \<open>bson-codec-design/bson: DefaultStructTagParser\<close>

text \<open>
  Of a \<^verbatim>\<open>reflect.StructField\<close> the parser reads \<^verbatim>\<open>Name\<close> and \<^verbatim>\<open>Tag\<close> (here with the
  prefix \<open>Field\<close>); \<^verbatim>\<open>StructTags\<close> is the record it returns.
\<close>

record StructField =
  Field_Name :: string
  Field_Tag :: string

record StructTags =
  Name :: string
  OmitEmpty :: bool
  MinSize :: bool
  Truncate :: bool
  Inline :: bool
  Skip :: bool

text \<open>
  Two functions of Go's standard library are parameters: \<^verbatim>\<open>strings.ToLower\<close>, and
  \<^verbatim>\<open>reflect.StructTag.Lookup\<close>, which takes the struct tag and a key and returns the value
  under that key with \<^verbatim>\<open>ok = true\<close>, or \<^verbatim>\<open>ok = false\<close> when the tag has no such key.
\<close>

record Stdlib =
  strings_ToLower :: "string \<Rightarrow> string"
  StructTag_Lookup :: "string \<Rightarrow> string \<Rightarrow> string \<times> bool"

text \<open>
  \<^verbatim>\<open>strings.Split(s, sep)\<close> for a separator of one byte: the pieces between the
  separators, one more than there are separators. \<^verbatim>\<open>strings.Contains\<close> likewise.
\<close>

function strings_Split :: "string \<Rightarrow> char \<Rightarrow> string list" where
  "strings_Split s sep =
     (case dropWhile (\<lambda>c. c \<noteq> sep) s of
        [] \<Rightarrow> [s]
      | c # rest \<Rightarrow> takeWhile (\<lambda>c. c \<noteq> sep) s # strings_Split rest sep)"
  by pat_completeness auto
termination
proof (relation "measure (\<lambda>(s, sep). length s)")
  show "wf (measure (\<lambda>(s, sep). length s))" by simp
next
  fix s :: string and sep c rest
  assume "dropWhile (\<lambda>c. c \<noteq> sep) s = c # rest"
  then have "length rest < length (dropWhile (\<lambda>c. c \<noteq> sep) s)" by simp
  also have "\<dots> \<le> length s" by (rule length_dropWhile_le)
  finally show "((rest, sep), (s, sep)) \<in> measure (\<lambda>(s, sep). length s)" by simp
qed

definition strings_Contains :: "string \<Rightarrow> char \<Rightarrow> bool" where
  "strings_Contains s c = (c \<in> set s)"

text \<open>
  The body of \<^verbatim>\<open>for idx, str := range strings.Split(tag, ",")\<close>: what it does to
  \<^verbatim>\<open>key\<close> and to \<^verbatim>\<open>st\<close>; then the loop.
\<close>

definition loop_key :: "nat \<Rightarrow> string \<Rightarrow> string \<Rightarrow> string" where
  "loop_key idx str key = (if idx = 0 \<and> str \<noteq> '''' then str else key)"

definition loop_tags :: "string \<Rightarrow> StructTags \<Rightarrow> StructTags" where
  "loop_tags str st =
     (if str = ''omitempty'' then st\<lparr> OmitEmpty := True \<rparr>
      else if str = ''minsize'' then st\<lparr> MinSize := True \<rparr>
      else if str = ''truncate'' then st\<lparr> Truncate := True \<rparr>
      else if str = ''inline'' then st\<lparr> Inline := True \<rparr>
      else st)"

fun range_loop :: "nat \<Rightarrow> string list \<Rightarrow> string \<times> StructTags \<Rightarrow> string \<times> StructTags" where
  "range_loop idx [] (key, st) = (key, st)"
| "range_loop idx (str # strs) (key, st) =
     range_loop (Suc idx) strs (loop_key idx str key, loop_tags str st)"

text \<open>
  \<^verbatim>\<open>DefaultStructTagParser\<close>. The error it returns is \<^verbatim>\<open>nil\<close> on every path, so the model
  returns the \<^verbatim>\<open>StructTags\<close> alone.
\<close>

definition DefaultStructTagParser :: "Stdlib \<Rightarrow> StructField \<Rightarrow> StructTags" where
  "DefaultStructTagParser env sf =
     (let key = strings_ToLower env (Field_Name sf);
          (tag, ok) = StructTag_Lookup env (Field_Tag sf) ''bson'';
          st = \<lparr> Name = '''', OmitEmpty = False, MinSize = False, Truncate = False,
                 Inline = False, Skip = False \<rparr>
      in if ok then
           (let st1 = (if tag = ''-'' \<or> Field_Tag sf = ''-'' then st\<lparr> Skip := True \<rparr> else st);
                (key', st2) = range_loop 0 (strings_Split tag CHR '','') (key, st1)
            in st2\<lparr> Name := key' \<rparr>)
         else if \<not> ok \<and> \<not> strings_Contains (Field_Tag sf) CHR '':'' \<and> length (Field_Tag sf) > 0 then
           st\<lparr> Name := Field_Tag sf \<rparr>
         else st\<lparr> Name := key \<rparr>)"

text \<open>
  Concrete inputs: \<^verbatim>\<open>ToLower\<close> on ASCII letters, and \<^verbatim>\<open>Lookup\<close> tabulated on the struct
  tags used below: the tags \<^verbatim>\<open>bson:"name,omitempty,minsize"\<close> and \<^verbatim>\<open>bson:"-"\<close> hold a
  \<^verbatim>\<open>bson\<close> key, every other tag used (\<^verbatim>\<open>bar\<close>, \<^verbatim>\<open>k,omitempty\<close>, \<^verbatim>\<open>-\<close>, the empty tag)
  holds none.
\<close>

definition asciiToLower :: "string \<Rightarrow> string" where
  "asciiToLower s =
     map (\<lambda>c. if (65::nat) \<le> of_char c \<and> of_char c \<le> (90::nat)
              then char_of (of_char c + (32::nat)) else c) s"

definition bsonTag :: "string \<Rightarrow> string" where
  "bsonTag v = ''bson:'' @ [CHR 0x22] @ v @ [CHR 0x22]"

definition goStdlib :: Stdlib where
  "goStdlib =
     \<lparr> strings_ToLower = asciiToLower,
       StructTag_Lookup = (\<lambda>tag key.
         if key = ''bson'' \<and> tag = bsonTag ''name,omitempty,minsize''
         then (''name,omitempty,minsize'', True)
         else if key = ''bson'' \<and> tag = bsonTag ''-'' then (''-'', True)
         else ('''', False)) \<rparr>"

section \<open>mongo: the write methods of Collection\<close>

text \<open>
  What the write methods of \<^verbatim>\<open>Collection\<close> call: \<^verbatim>\<open>getOrInsertID\<close>, server selection
  (\<^verbatim>\<open>coll.getWriteableServer\<close>), \<^verbatim>\<open>coll.writeConcern.Acknowledged()\<close>, \<^verbatim>\<open>ensureDollarKey\<close>,
  \<^verbatim>\<open>bson.Marshal\<close> and \<^verbatim>\<open>bson.Unmarshal\<close>, and the operations of package \<^verbatim>\<open>ops\<close>, which
  send the command and read the server's reply. \<open>'d\<close> is a document, filter or update
  (\<^verbatim>\<open>interface{}\<close>), \<open>'i\<close> an inserted id, \<open>'s\<close> the selected server, \<open>'b\<close> marshalled
  bytes, \<open>'dr\<close> and \<open>'ur\<close> are \<^verbatim>\<open>DeleteResult\<close> and \<^verbatim>\<open>UpdateResult\<close>. A delete document is
  its \<^verbatim>\<open>q\<close> and \<^verbatim>\<open>limit\<close>, an update document its \<^verbatim>\<open>q\<close>, \<^verbatim>\<open>u\<close> and \<^verbatim>\<open>multi\<close>.
\<close>

record ('d, 'i, 's, 'b, 'dr, 'ur) Collection =
  getOrInsertID :: "'d \<Rightarrow> error + 'd \<times> 'i"
  getWriteableServer :: "error + 's"
  Acknowledged :: bool
  ensureDollarKey :: "'d \<Rightarrow> error option"
  bson_Marshal :: "'d \<Rightarrow> error + 'b"
  bson_Unmarshal :: "'b \<Rightarrow> error + (string \<times> 'd) list"
  ops_Insert :: "'s \<Rightarrow> 'd list \<Rightarrow> error option"
  ops_Delete :: "'s \<Rightarrow> ('d \<times> int) list \<Rightarrow> error + 'dr"
  ops_Update :: "'s \<Rightarrow> ('d \<times> 'd \<times> bool) list \<Rightarrow> error + 'ur"
  ops_FindOneAndDelete :: "'s \<Rightarrow> 'd \<Rightarrow> bool \<times> error option"
  ops_FindOneAndReplace :: "'s \<Rightarrow> 'd \<Rightarrow> 'd \<Rightarrow> bool \<times> error option"
  ops_FindOneAndUpdate :: "'s \<Rightarrow> 'd \<Rightarrow> 'd \<Rightarrow> bool \<times> error option"

text \<open>
  Each method returns a pointer to its result and an error; \<^verbatim>\<open>nil\<close> is \<open>None\<close>. With an
  unacknowledged write concern the method starts the operation in a goroutine that
  discards its result (\<^verbatim>\<open>go func() { _ = insert() }()\<close>) and returns \<^verbatim>\<open>nil, nil\<close> at once:
  nothing of that goroutine reaches the returned values.
\<close>

definition InsertOne ::
  "('d, 'i, 's, 'b, 'dr, 'ur) Collection \<Rightarrow> 'd \<Rightarrow> 'i option \<times> error option" where
  "InsertOne coll document =
     (case getOrInsertID coll document of
        Inl e \<Rightarrow> (None, Some e)
      | Inr (doc, insertedID) \<Rightarrow>
          (case getWriteableServer coll of
             Inl e \<Rightarrow> (None, Some e)
           | Inr s \<Rightarrow>
               if \<not> Acknowledged coll then (None, None)
               else (case ops_Insert coll s [doc] of
                       Some e \<Rightarrow> (None, Some e)
                     | None \<Rightarrow> (Some insertedID, None))))"

text \<open>The loop of \<^verbatim>\<open>InsertMany\<close> over the documents, which stops at the first error.\<close>

fun InsertMany_loop ::
  "('d, 'i, 's, 'b, 'dr, 'ur) Collection \<Rightarrow> 'd list \<Rightarrow> error + 'd list \<times> 'i list" where
  "InsertMany_loop coll [] = Inr ([], [])"
| "InsertMany_loop coll (doc # documents) =
     (case getOrInsertID coll doc of
        Inl e \<Rightarrow> Inl e
      | Inr (docWithID, insertedID) \<Rightarrow>
          (case InsertMany_loop coll documents of
             Inl e \<Rightarrow> Inl e
           | Inr (ds, ids) \<Rightarrow> Inr (docWithID # ds, insertedID # ids)))"

definition InsertMany ::
  "('d, 'i, 's, 'b, 'dr, 'ur) Collection \<Rightarrow> 'd list \<Rightarrow> 'i list option \<times> error option" where
  "InsertMany coll documents =
     (case InsertMany_loop coll documents of
        Inl e \<Rightarrow> (None, Some e)
      | Inr (documents', result) \<Rightarrow>
          (case getWriteableServer coll of
             Inl e \<Rightarrow> (None, Some e)
           | Inr s \<Rightarrow>
               if \<not> Acknowledged coll then (None, None)
               else (case ops_Insert coll s documents' of
                       Some e \<Rightarrow> (None, Some e)
                     | None \<Rightarrow> (Some result, None))))"

definition DeleteOne ::
  "('d, 'i, 's, 'b, 'dr, 'ur) Collection \<Rightarrow> 'd \<Rightarrow> 'dr option \<times> error option" where
  "DeleteOne coll filter' =
     (let deleteDocs = [(filter', 1)] in
      case getWriteableServer coll of
        Inl e \<Rightarrow> (None, Some e)
      | Inr s \<Rightarrow>
          if \<not> Acknowledged coll then (None, None)
          else (case ops_Delete coll s deleteDocs of
                  Inl e \<Rightarrow> (None, Some e)
                | Inr result \<Rightarrow> (Some result, None)))"

definition DeleteMany ::
  "('d, 'i, 's, 'b, 'dr, 'ur) Collection \<Rightarrow> 'd \<Rightarrow> 'dr option \<times> error option" where
  "DeleteMany coll filter' =
     (let deleteDocs = [(filter', 0)] in
      case getWriteableServer coll of
        Inl e \<Rightarrow> (None, Some e)
      | Inr s \<Rightarrow>
          if \<not> Acknowledged coll then (None, None)
          else (case ops_Delete coll s deleteDocs of
                  Inl e \<Rightarrow> (None, Some e)
                | Inr result \<Rightarrow> (Some result, None)))"

definition updateOrReplaceOne ::
  "('d, 'i, 's, 'b, 'dr, 'ur) Collection \<Rightarrow> 'd \<Rightarrow> 'd \<Rightarrow> 'ur option \<times> error option" where
  "updateOrReplaceOne coll filter' update =
     (let updateDocs = [(filter', update, False)] in
      case getWriteableServer coll of
        Inl e \<Rightarrow> (None, Some e)
      | Inr s \<Rightarrow>
          if \<not> Acknowledged coll then (None, None)
          else (case ops_Update coll s updateDocs of
                  Inl e \<Rightarrow> (None, Some e)
                | Inr result \<Rightarrow> (Some result, None)))"

definition UpdateOne ::
  "('d, 'i, 's, 'b, 'dr, 'ur) Collection \<Rightarrow> 'd \<Rightarrow> 'd \<Rightarrow> 'ur option \<times> error option" where
  "UpdateOne coll filter' update =
     (case ensureDollarKey coll update of
        Some e \<Rightarrow> (None, Some e)
      | None \<Rightarrow> updateOrReplaceOne coll filter' update)"

definition UpdateMany ::
  "('d, 'i, 's, 'b, 'dr, 'ur) Collection \<Rightarrow> 'd \<Rightarrow> 'd \<Rightarrow> 'ur option \<times> error option" where
  "UpdateMany coll filter' update =
     (case ensureDollarKey coll update of
        Some e \<Rightarrow> (None, Some e)
      | None \<Rightarrow>
          (let updateDocs = [(filter', update, True)] in
           case getWriteableServer coll of
             Inl e \<Rightarrow> (None, Some e)
           | Inr s \<Rightarrow>
               if \<not> Acknowledged coll then (None, None)
               else (case ops_Update coll s updateDocs of
                       Inl e \<Rightarrow> (None, Some e)
                     | Inr result \<Rightarrow> (Some result, None))))"

text \<open>
  \<^verbatim>\<open>ReplaceOne\<close>, \<^verbatim>\<open>FindOneAndReplace\<close> and \<^verbatim>\<open>FindOneAndUpdate\<close> first marshal their
  document and read it back, to look at the first byte of its first key
  (\<^verbatim>\<open>doc[0].Name[0]\<close>, which panics on an empty key). \<open>dollar\<close> is whether that byte must
  be a \<^verbatim>\<open>$\<close> (an update) or must not be (a replacement).
\<close>

definition firstKeyCheck ::
  "('d, 'i, 's, 'b, 'dr, 'ur) Collection \<Rightarrow> bool \<Rightarrow> string \<Rightarrow> 'd \<Rightarrow> error option" where
  "firstKeyCheck coll dollar msg document =
     (case bson_Marshal coll document of
        Inl e \<Rightarrow> Some e
      | Inr bytes \<Rightarrow>
          (case bson_Unmarshal coll bytes of
             Inl e \<Rightarrow> Some e
           | Inr doc \<Rightarrow>
               (case doc of
                  [] \<Rightarrow> None
                | (name, v) # rest \<Rightarrow>
                    (case name of
                       [] \<Rightarrow> Some (Panic ''index out of range'')
                     | c # cs \<Rightarrow> if (c = CHR ''$'') \<noteq> dollar then Some (Error msg) else None))))"

definition ReplaceOne ::
  "('d, 'i, 's, 'b, 'dr, 'ur) Collection \<Rightarrow> 'd \<Rightarrow> 'd \<Rightarrow> 'ur option \<times> error option" where
  "ReplaceOne coll filter' replacement =
     (case firstKeyCheck coll False ''replacement document cannot contains keys beginning with '$''
             replacement of
        Some e \<Rightarrow> (None, Some e)
      | None \<Rightarrow> updateOrReplaceOne coll filter' replacement)"

definition FindOneAndDelete ::
  "('d, 'i, 's, 'b, 'dr, 'ur) Collection \<Rightarrow> 'd \<Rightarrow> bool \<times> error option" where
  "FindOneAndDelete coll filter' =
     (case getWriteableServer coll of
        Inl e \<Rightarrow> (False, Some e)
      | Inr s \<Rightarrow>
          if \<not> Acknowledged coll then (False, None)
          else ops_FindOneAndDelete coll s filter')"

definition FindOneAndReplace ::
  "('d, 'i, 's, 'b, 'dr, 'ur) Collection \<Rightarrow> 'd \<Rightarrow> 'd \<Rightarrow> bool \<times> error option" where
  "FindOneAndReplace coll filter' replacement =
     (case firstKeyCheck coll False ''replacement document cannot contains keys beginning with '$''
             replacement of
        Some e \<Rightarrow> (False, Some e)
      | None \<Rightarrow>
          (case getWriteableServer coll of
             Inl e \<Rightarrow> (False, Some e)
           | Inr s \<Rightarrow>
               if \<not> Acknowledged coll then (False, None)
               else ops_FindOneAndReplace coll s filter' replacement))"

definition FindOneAndUpdate ::
  "('d, 'i, 's, 'b, 'dr, 'ur) Collection \<Rightarrow> 'd \<Rightarrow> 'd \<Rightarrow> bool \<times> error option" where
  "FindOneAndUpdate coll filter' update =
     (case firstKeyCheck coll True ''update document must contain key beginning with '$'' update of
        Some e \<Rightarrow> (False, Some e)
      | None \<Rightarrow>
          (case getWriteableServer coll of
             Inl e \<Rightarrow> (False, Some e)
           | Inr s \<Rightarrow>
               if \<not> Acknowledged coll then (False, None)
               else ops_FindOneAndUpdate coll s filter' update))"

text \<open>
  A concrete collection with an unacknowledged write concern whose local steps succeed
  and whose every operation fails on the server.
\<close>

definition failingServer :: "(nat, nat, string, nat, nat, nat) Collection" where
  "failingServer =
     \<lparr> getOrInsertID = (\<lambda>d. Inr (d, d)),
       getWriteableServer = Inr ''primary'',
       Acknowledged = False,
       ensureDollarKey = (\<lambda>u. None),
       bson_Marshal = (\<lambda>d. Inr d),
       bson_Unmarshal = (\<lambda>b. Inr []),
       ops_Insert = (\<lambda>s ds. Some (Error ''duplicate key'')),
       ops_Delete = (\<lambda>s ds. Inl (Error ''not master'')),
       ops_Update = (\<lambda>s ds. Inl (Error ''not master'')),
       ops_FindOneAndDelete = (\<lambda>s f. (False, Some (Error ''not master''))),
       ops_FindOneAndReplace = (\<lambda>s f r. (False, Some (Error ''not master''))),
       ops_FindOneAndUpdate = (\<lambda>s f u. (False, Some (Error ''not master''))) \<rparr>"

section \<open>core/session: the cluster clock\<close>

text \<open>
  Modelled from the spec: \<^verbatim>\<open>MaxClusterTime\<close>, which \<^verbatim>\<open>AdvanceClusterTime\<close> calls and which
  is not among the sources. The spec: "AdvanceClusterTime is monotone under the
  comparator: take the document with the greater \<^verbatim>\<open>clusterTime.timestamp\<close>", a timestamp
  being "two unsigned 32-bit words". The timestamp of a cluster-time document is the
  \<^verbatim>\<open>Timestamp\<close> under its key \<^verbatim>\<open>clusterTime\<close>; timestamps compare by their first word, then
  by their second. The spec does not say what a document without such an element counts
  as: here it counts as \<^verbatim>\<open>Timestamp(0,0)\<close>, so that the empty document a clock starts
  with is below every other. Of two documents with equal timestamps the first stays.
\<close>

definition clusterTimestamp :: "Doc \<Rightarrow> 32 word \<times> 32 word" where
  "clusterTimestamp ct =
     (case map_of ct ''clusterTime'' of Some (Timestamp t i) \<Rightarrow> (t, i) | _ \<Rightarrow> (0, 0))"

definition timestamp_less :: "32 word \<times> 32 word \<Rightarrow> 32 word \<times> 32 word \<Rightarrow> bool" where
  "timestamp_less a b = (fst a < fst b \<or> fst a = fst b \<and> snd a < snd b)"

definition MaxClusterTime :: "Doc \<Rightarrow> Doc \<Rightarrow> Doc" where
  "MaxClusterTime ct1 ct2 =
     (if timestamp_less (clusterTimestamp ct1) (clusterTimestamp ct2) then ct2 else ct1)"

text \<open>
  \<^verbatim>\<open>ClusterClock\<close> with \<^verbatim>\<open>GetClusterTime\<close> and \<^verbatim>\<open>AdvanceClusterTime\<close>, from the source. Both
  run under the clock's mutex, so the calls on one clock form a sequence.
\<close>

record ClusterClock =
  clusterTime :: Doc

definition GetClusterTime :: "ClusterClock \<Rightarrow> Doc" where
  "GetClusterTime cc = clusterTime cc"

definition AdvanceClusterTime :: "ClusterClock \<Rightarrow> Doc \<Rightarrow> ClusterClock" where
  "AdvanceClusterTime cc ct = cc\<lparr> clusterTime := MaxClusterTime (clusterTime cc) ct \<rparr>"

text \<open>The reply document \<^verbatim>\<open>{clusterTime: Timestamp(t, i)}\<close> of the spec's scenario.\<close>

definition clusterTimeDoc :: "32 word \<Rightarrow> 32 word \<Rightarrow> Doc" where
  "clusterTimeDoc t i = [(''clusterTime'', Timestamp t i)]"

section \<open>bson: the encoded form of a document\<close>

text \<open>
  Modelled from the spec: the document encoder (\<^verbatim>\<open>Document.MarshalBSON\<close>,
  \<^verbatim>\<open>Encoder.Encode\<close>, the builder's \<^verbatim>\<open>WriteDocument\<close>), of which the sources hold only the
  tests. The spec: "Document = int32 length || element* || 0x00. Element = type:uint8
  || cstring key || value. CString = bytes without NUL, terminated by NUL. Numeric
  primitives are little-endian"; the length is the "byte length of the whole document
  including the prefix and the trailing NUL byte"; "arrays are documents whose keys are
  the string decimal representation of their index, beginning at 0". The type bytes are
  the positions of the variants in the spec's list (\<^verbatim>\<open>01\<close> double to \<^verbatim>\<open>13\<close> decimal128,
  min-key \<^verbatim>\<open>FF\<close>, max-key \<^verbatim>\<open>7F\<close>), as the fixtures of the spec and of the tests have them;
  a string value is its int32 byte length (with the NUL), its bytes and a NUL, as in
  the fixture for \<^verbatim>\<open>{"hello":"world"}\<close>. The values the spec gives no layout for follow the
  public format of the wire protocol.
\<close>

type_synonym byte = "8 word"

definition le_bytes :: "nat \<Rightarrow> 'a::len word \<Rightarrow> byte list" where
  "le_bytes n w = map (\<lambda>k. ucast (drop_bit (8 * k) w)) [0..<n]"

definition be_bytes :: "nat \<Rightarrow> 'a::len word \<Rightarrow> byte list" where
  "be_bytes n w = rev (le_bytes n w)"

definition word_of_le :: "byte list \<Rightarrow> 'a::len word" where
  "word_of_le bs = foldr (\<lambda>b w. ucast b OR push_bit 8 w) bs 0"

definition int32 :: "32 word \<Rightarrow> byte list" where
  "int32 w = le_bytes 4 w"

definition cstring :: "string \<Rightarrow> byte list" where
  "cstring s = map of_char s @ [0]"

definition bson_string :: "string \<Rightarrow> byte list" where
  "bson_string s = int32 (word_of_nat (length s + 1)) @ map of_char s @ [0]"

text \<open>The decimal representation of an array index.\<close>

function decimal :: "nat \<Rightarrow> string" where
  "decimal n = (if n < 10 then [char_of (48 + n)] else decimal (n div 10) @ [char_of (48 + n mod 10)])"
  by pat_completeness auto
termination
  by (relation "measure id") auto

fun typeByte :: "Val \<Rightarrow> byte" where
  "typeByte (Double w) = 0x01"
| "typeByte (String s) = 0x02"
| "typeByte (Document d) = 0x03"
| "typeByte (Array vs) = 0x04"
| "typeByte (Binary subtype bs) = 0x05"
| "typeByte Undefined = 0x06"
| "typeByte (ObjectID oid) = 0x07"
| "typeByte (Boolean b) = 0x08"
| "typeByte (DateTime w) = 0x09"
| "typeByte Null = 0x0A"
| "typeByte (Regex pattern opts) = 0x0B"
| "typeByte (DBPointer ns oid) = 0x0C"
| "typeByte (JavaScript code) = 0x0D"
| "typeByte (Symbol s) = 0x0E"
| "typeByte (CodeWithScope code scope) = 0x0F"
| "typeByte (Int32 w) = 0x10"
| "typeByte (Timestamp t i) = 0x11"
| "typeByte (Int64 w) = 0x12"
| "typeByte (Decimal128 w) = 0x13"
| "typeByte MinKey = 0xFF"
| "typeByte MaxKey = 0x7F"

text \<open>The frame of a document around its encoded elements.\<close>

definition document_frame :: "byte list \<Rightarrow> byte list" where
  "document_frame elements = int32 (word_of_nat (4 + length elements + 1)) @ elements @ [0]"

definition element :: "byte \<Rightarrow> string \<Rightarrow> byte list \<Rightarrow> byte list" where
  "element t key v = t # cstring key @ v"

function (sequential) encodeVal :: "Val \<Rightarrow> byte list" where
  "encodeVal (Double w) = le_bytes 8 w"
| "encodeVal (String s) = bson_string s"
| "encodeVal (Document d) =
     document_frame (concat (map (\<lambda>(key, v). element (typeByte v) key (encodeVal v)) d))"
| "encodeVal (Array vs) =
     document_frame
       (concat (map (\<lambda>(idx, v). element (typeByte v) (decimal idx) (encodeVal v)) (enumerate 0 vs)))"
| "encodeVal (Binary subtype bs) = int32 (word_of_nat (length bs)) @ [subtype] @ bs"
| "encodeVal Undefined = []"
| "encodeVal (ObjectID oid) = be_bytes 12 oid"
| "encodeVal (Boolean b) = [if b then 1 else 0]"
| "encodeVal (DateTime w) = le_bytes 8 w"
| "encodeVal Null = []"
| "encodeVal (Regex pattern opts) = cstring pattern @ cstring opts"
| "encodeVal (DBPointer ns oid) = bson_string ns @ be_bytes 12 oid"
| "encodeVal (JavaScript code) = bson_string code"
| "encodeVal (Symbol s) = bson_string s"
| "encodeVal (CodeWithScope code scope) =
     (let body = bson_string code @
            document_frame (concat (map (\<lambda>(key, v). element (typeByte v) key (encodeVal v)) scope))
      in int32 (word_of_nat (4 + length body)) @ body)"
| "encodeVal (Int32 w) = le_bytes 4 w"
| "encodeVal (Timestamp t i) = le_bytes 4 i @ le_bytes 4 t"
| "encodeVal (Int64 w) = le_bytes 8 w"
| "encodeVal (Decimal128 w) = le_bytes 16 w"
| "encodeVal MinKey = []"
| "encodeVal MaxKey = []"
  by pat_completeness auto
termination
proof (relation "measure size")
  show "wf (measure size)" by simp
next
  fix d :: "(string \<times> Val) list" and x :: "string \<times> Val" and key v
  assume "x \<in> set d" and "(key, v) = x"
  then have "(key, v) \<in> set d" by simp
  then have "size_prod (\<lambda>x. 0) size (key, v) \<le> size_list (size_prod (\<lambda>x. 0) size) d"
    by (rule size_list_estimation') simp
  then show "(v, Document d) \<in> measure size" by simp
next
  fix vs :: "Val list" and x :: "nat \<times> Val" and idx v
  assume "x \<in> set (enumerate 0 vs)" and "(idx, v) = x"
  then have "v \<in> set vs"
    by (auto simp: in_set_enumerate_eq)
  then have "size v \<le> size_list size vs"
    by (simp add: size_list_estimation')
  then show "(v, Array vs) \<in> measure size" by simp
next
  fix code :: string and scope :: "(string \<times> Val) list" and x :: "string \<times> Val" and key v
  assume "x \<in> set scope" and "(key, v) = x"
  then have "(key, v) \<in> set scope" by simp
  then have "size_prod (\<lambda>x. 0) size (key, v) \<le> size_list (size_prod (\<lambda>x. 0) size) scope"
    by (rule size_list_estimation') simp
  then show "(v, CodeWithScope code scope) \<in> measure size" by simp
qed

definition encodeElement :: "Elem \<Rightarrow> byte list" where
  "encodeElement el = element (typeByte (snd el)) (fst el) (encodeVal (snd el))"

definition encodeDocument :: "Doc \<Rightarrow> byte list" where
  "encodeDocument d = document_frame (concat (map encodeElement d))"

section \<open>core: the cursor's Next\<close>







section \<open>mongo/document_result.go\<close>

text \<open>
  \<^verbatim>\<open>Cursor\<close> is an interface (mongo/private/roots/command/cursor.go): its methods are the
  fields of a record of functions over the cursor's state \<open>'c\<close>. \<^verbatim>\<open>Next\<close> advances the
  cursor, so it returns the new state; \<^verbatim>\<open>Decode\<close> writes into its destination \<open>'v\<close>.
\<close>

record ('c, 'v) Cursor =
  Next :: "'c \<Rightarrow> bool \<times> 'c"
  Err :: "'c \<Rightarrow> error option"
  Decode :: "'c \<Rightarrow> 'v \<Rightarrow> error option \<times> 'v"

record 'c DocumentResult =
  err :: "error option"
  cur :: 'c

text \<open>
  \<^verbatim>\<open>func (dr *DocumentResult) Decode(v interface{}) error\<close>. The destination \<^verbatim>\<open>v\<close> is
  \<open>None\<close> when it is \<^verbatim>\<open>nil\<close>. The result is the returned error, the cursor's state and
  the destination after the call.
\<close>

definition DocumentResult_Decode ::
  "('c, 'v) Cursor \<Rightarrow> 'c DocumentResult \<Rightarrow> 'v option \<Rightarrow> error option \<times> 'c \<times> 'v option" where
  "DocumentResult_Decode I dr v =
     (case err dr of
        Some e \<Rightarrow> (Some e, cur dr, v)
      | None \<Rightarrow>
          (case Next I (cur dr) of
             (False, c') \<Rightarrow>
               (case Err I c' of
                  Some e \<Rightarrow> (Some e, c', v)
                | None \<Rightarrow> (Some ErrNoDocuments, c', v))
           | (True, c') \<Rightarrow>
               (case v of
                  None \<Rightarrow> (None, c', None)
                | Some d \<Rightarrow> (case Decode I c' d of (r, d') \<Rightarrow> (r, c', Some d')))))"

text \<open>
  A cursor over a list of documents that fails with a fixed error once the list is
  drained (an instance of the interface for concrete inputs).
\<close>

definition listCursor :: "error option \<Rightarrow> (nat list, nat) Cursor" where
  "listCursor e =
     \<lparr> Next = (\<lambda>c. case c of [] \<Rightarrow> (False, []) | x # xs \<Rightarrow> (True, x # xs)),
       Err = (\<lambda>c. case c of [] \<Rightarrow> e | x # xs \<Rightarrow> None),
       Decode = (\<lambda>c d. case c of [] \<Rightarrow> (Some (Error ''no document''), d) | x # xs \<Rightarrow> (None, x)) \<rparr>"

section \<open>Theorems\<close>

subsection \<open>dispatch.Find: the option blocks\<close>

lemma runStep_Abort: "foldl runStep (Abort e c) sts = Abort e c"
  by (induction sts) auto

lemma foldl_runStep_Continue:
  "foldl runStep (Continue c) sts = Continue c' \<Longrightarrow>
     (\<forall>st \<in> set sts. \<exists>d. st = Inr d) \<and>
     c' = c\<lparr> Opts := Opts c @ concat (map stepOpts sts),
             CursorOpts := CursorOpts c @ concat (map stepCursorOpts sts) \<rparr>"
proof (induction sts arbitrary: c)
  case Nil
  then show ?case by simp
next
  case (Cons st sts)
  show ?case
  proof (cases st)
    case (Inl e)
    with Cons.prems show ?thesis by (simp add: runStep_Abort)
  next
    case (Inr p)
    obtain os cs where p: "p = (os, cs)" by (cases p)
    from Cons.prems Inr p
    have "foldl runStep (Continue (c\<lparr> Opts := Opts c @ os, CursorOpts := CursorOpts c @ cs \<rparr>)) sts = Continue c'"
      by simp
    from Cons.IH [OF this] show ?thesis
      by (simp add: Inr p)
  qed
qed

lemma Find_setup_Inr:
  "Find_setup env cmd = Inr (desc, c) \<Longrightarrow>
     SelectServer env = Inr desc \<and> Opts c = Opts cmd \<and> CursorOpts c = CursorOpts cmd"
  by (auto simp: Find_setup_def Let_def split: sum.splits option.splits if_splits)



lemma filter_key_empty: "k \<notin> fst ` set xs \<Longrightarrow> filter (\<lambda>el. fst el = k) xs = []"
  by (induction xs) auto

lemma boolStep_keys: "fst ` set (stepOpts (boolStep k v)) \<subseteq> {k}"
  by (cases v) (simp_all add: boolStep_def)
lemma int64Step_keys: "fst ` set (stepOpts (int64Step k v)) \<subseteq> {k}"
  by (cases v) (simp_all add: int64Step_def)
lemma interfaceStep_keys:
  "(\<And>k v el. interfaceToElement env k v = Inr el \<Longrightarrow> fst el = k) \<Longrightarrow>
   fst ` set (stepOpts (interfaceStep env k v)) \<subseteq> {k}"
  by (cases v) (auto simp: interfaceStep_def split: sum.splits)

lemma batchSizeStep_keys: "fst ` set (stepOpts (batchSizeStep fo)) \<subseteq> {''batchSize'', ''singleBatch''}"
  by (auto simp: batchSizeStep_def split: option.splits)
lemma collationStep_keys: "fst ` set (stepOpts (collationStep env desc fo)) \<subseteq> {''collation''}"
  by (auto simp: collationStep_def split: option.splits)
lemma commentStep_keys: "fst ` set (stepOpts (commentStep fo)) \<subseteq> {''comment''}"
  by (auto simp: commentStep_def split: option.splits)
lemma cursorTypeStep_keys: "fst ` set (stepOpts (cursorTypeStep fo)) \<subseteq> {''tailable'', ''awaitData''}"
  by (auto simp: cursorTypeStep_def split: option.splits CursorType.splits)
lemma maxAwaitTimeStep_Opts: "stepOpts (maxAwaitTimeStep fo) = []"
  by (auto simp: maxAwaitTimeStep_def split: option.splits)
lemma maxTimeStep_Opts:
  "stepOpts (maxTimeStep fo) =
     (case MaxTime fo of None \<Rightarrow> [] | Some d \<Rightarrow> [(''maxTimeMS'', Int64 (durationMilliseconds d))])"
  by (auto simp: maxTimeStep_def split: option.splits)

lemma stepCursorOpts_simps2:
  "stepCursorOpts (boolStep k b) = []"
  "stepCursorOpts (int64Step k n) = []"
  "stepCursorOpts (interfaceStep env k v) = []"
  "stepCursorOpts (collationStep env desc fo) = []"
  "stepCursorOpts (commentStep fo) = []"
  "stepCursorOpts (cursorTypeStep fo) = []"
  "stepCursorOpts (maxTimeStep fo) = []"
  by (auto simp: boolStep_def int64Step_def interfaceStep_def collationStep_def commentStep_def
      cursorTypeStep_def maxTimeStep_def split: option.splits sum.splits CursorType.splits)

lemma batchSizeStep_CursorOpts:
  "stepCursorOpts (batchSizeStep fo) =
     (case BatchSize fo of None \<Rightarrow> [] | Some bs \<Rightarrow> [(''batchSize'', Int32 bs)])"
  by (auto simp: batchSizeStep_def split: option.splits)

lemma maxAwaitTimeStep_CursorOpts:
  "stepCursorOpts (maxAwaitTimeStep fo) =
     (case MaxAwaitTime fo of None \<Rightarrow> [] | Some d \<Rightarrow> [(''maxTimeMS'', Int64 (durationMilliseconds d))])"
  by (auto simp: maxAwaitTimeStep_def split: option.splits)

lemma Find_steps_CursorOpts:
  "concat (map stepCursorOpts (Find_steps env desc fo)) =
     (case BatchSize fo of None \<Rightarrow> [] | Some bs \<Rightarrow> [(''batchSize'', Int32 bs)]) @
     (case MaxAwaitTime fo of None \<Rightarrow> [] | Some d \<Rightarrow> [(''maxTimeMS'', Int64 (durationMilliseconds d))])"
  by (simp add: Find_steps_def stepCursorOpts_simps2 batchSizeStep_CursorOpts maxAwaitTimeStep_CursorOpts)

lemma filter_key_subset: "fst ` set xs \<subseteq> K \<Longrightarrow> k \<notin> K \<Longrightarrow> filter (\<lambda>el. fst el = k) xs = []"
  by (rule filter_key_empty) auto

lemma Find_steps_maxTimeMS:
  assumes key: "\<And>k v el. interfaceToElement env k v = Inr el \<Longrightarrow> fst el = k"
  shows "filter (\<lambda>el. fst el = ''maxTimeMS'') (concat (map stepOpts (Find_steps env desc fo))) =
     (case MaxTime fo of None \<Rightarrow> [] | Some d \<Rightarrow> [(''maxTimeMS'', Int64 (durationMilliseconds d))])"
proof -
  note i = interfaceStep_keys [of env, OF key]
  have mt: "filter (\<lambda>el. fst el = ''maxTimeMS'') (stepOpts (maxTimeStep fo)) = stepOpts (maxTimeStep fo)"
    by (simp add: maxTimeStep_Opts split: option.splits)
  show ?thesis
    by (simp add: Find_steps_def filter_concat maxAwaitTimeStep_Opts mt
        filter_key_subset [OF boolStep_keys] filter_key_subset [OF int64Step_keys]
        filter_key_subset [OF i] filter_key_subset [OF batchSizeStep_keys]
        filter_key_subset [OF collationStep_keys] filter_key_subset [OF commentStep_keys]
        filter_key_subset [OF cursorTypeStep_keys])
      (simp add: maxTimeStep_Opts)
qed

lemma filter_key_empty_iff: "filter (\<lambda>el. fst el = k) xs = [] \<longleftrightarrow> k \<notin> fst ` set xs"
  by (induction xs) auto

lemma Find_steps_no_maxAwaitTimeMS:
  assumes key: "\<And>k v el. interfaceToElement env k v = Inr el \<Longrightarrow> fst el = k"
  shows "''maxAwaitTimeMS'' \<notin> fst ` set (concat (map stepOpts (Find_steps env desc fo)))"
proof -
  note i = interfaceStep_keys [of env, OF key]
  have mt: "fst ` set (stepOpts (maxTimeStep fo)) \<subseteq> {''maxTimeMS''}"
    by (cases "MaxTime fo") (simp_all add: maxTimeStep_Opts)
  have "filter (\<lambda>el. fst el = ''maxAwaitTimeMS'') (concat (map stepOpts (Find_steps env desc fo))) = []"
    by (simp add: Find_steps_def filter_concat maxAwaitTimeStep_Opts
        filter_key_subset [OF boolStep_keys] filter_key_subset [OF int64Step_keys]
        filter_key_subset [OF i] filter_key_subset [OF batchSizeStep_keys]
        filter_key_subset [OF collationStep_keys] filter_key_subset [OF commentStep_keys]
        filter_key_subset [OF cursorTypeStep_keys] filter_key_subset [OF mt])
  then show ?thesis by (rule iffD1 [OF filter_key_empty_iff])
qed

lemma Find_steps_tailableAwait:
  assumes "CursorType fo = Some TailableAwait"
  shows "(''tailable'', Boolean True) \<in> set (concat (map stepOpts (Find_steps env desc fo))) \<and>
         (''awaitData'', Boolean True) \<in> set (concat (map stepOpts (Find_steps env desc fo)))"
proof -
  have "stepOpts (cursorTypeStep fo) = [(''tailable'', Boolean True), (''awaitData'', Boolean True)]"
    using assms by (simp add: cursorTypeStep_def)
  then show ?thesis by (simp add: Find_steps_def)
qed

lemmas Find_unfold =
  Find_def Find_prepare_def Find_setup_def Find_options_def Find_steps_def testEnv_def
  noOptions_def findCmd_def boolStep_def batchSizeStep_def collationStep_def commentStep_def
  cursorTypeStep_def interfaceStep_def int64Step_def maxAwaitTimeStep_def maxTimeStep_def

lemma durationMilliseconds_250: "durationMilliseconds 250000000 = 250"
  by (simp add: durationMilliseconds_def signed_divide_int_def)

lemma Find_setup_RoundTrip:
  "Find_setup (env\<lparr> RoundTrip := rt \<rparr>) cmd = Find_setup env cmd"
  by (simp add: Find_setup_def Let_def cong: sum.case_cong option.case_cong if_cong)

lemma interfaceStep_RoundTrip:
  "interfaceStep (env\<lparr> RoundTrip := rt \<rparr>) k v = interfaceStep env k v"
  by (cases v) (simp_all add: interfaceStep_def)

lemma collationStep_RoundTrip:
  "collationStep (env\<lparr> RoundTrip := rt \<rparr>) desc fo = collationStep env desc fo"
  by (cases "Collation fo") (simp_all add: collationStep_def)

lemma Find_options_RoundTrip:
  "Find_options (env\<lparr> RoundTrip := rt \<rparr>) desc fo c = Find_options env desc fo c"
  by (simp only: Find_options_def Find_steps_def interfaceStep_RoundTrip collationStep_RoundTrip)

lemma Find_prepare_RoundTrip:
  "Find_prepare (env\<lparr> RoundTrip := rt \<rparr>) cmd fo = Find_prepare env cmd fo"
  by (simp only: Find_prepare_def Find_setup_RoundTrip Find_options_RoundTrip)

text \<open>
  C3. Whenever the steps of \<^verbatim>\<open>Find\<close> before its last line succeed, \<^verbatim>\<open>Find\<close> hands a
  command \<open>cmd'\<close> to \<^verbatim>\<open>RoundTrip\<close> and returns what \<^verbatim>\<open>RoundTrip\<close> returns for it, whatever
  \<^verbatim>\<open>RoundTrip\<close> is. That command is the caller's with elements appended to \<^verbatim>\<open>cmd.Opts\<close>
  and \<^verbatim>\<open>cmd.CursorOpts\<close>. The cursor (getMore) options gained the batch size and, for a
  \<^verbatim>\<open>MaxAwaitTime\<close> option, the element \<^verbatim>\<open>maxTimeMS\<close> of its milliseconds. The options of
  the initial find command gained no element from \<^verbatim>\<open>MaxAwaitTime\<close>: their \<^verbatim>\<open>maxTimeMS\<close>
  elements are exactly the one of the \<^verbatim>\<open>MaxTime\<close> option (none when it is not set), and
  no element is keyed \<^verbatim>\<open>maxAwaitTimeMS\<close>. For a tailable-await cursor they gained
  \<^verbatim>\<open>tailable: true\<close> and \<^verbatim>\<open>awaitData: true\<close>. (\<^verbatim>\<open>interfaceToElement\<close> is taken to key the
  element it returns with the key it is given.)
\<close>

theorem Find_MaxAwaitTime_only_getMore:
  assumes key: "\<And>k v el. interfaceToElement env k v = Inr el \<Longrightarrow> fst el = k"
      and sent: "Find_prepare env cmd fo = Continue cmd'"
  shows "Find env cmd fo = RoundTrip env cmd' \<and>
    (\<forall>rt. Find (env\<lparr> RoundTrip := rt \<rparr>) cmd fo = rt cmd') \<and>
    (\<exists>added. Opts cmd' = Opts cmd @ added \<and>
      CursorOpts cmd' = CursorOpts cmd @
        (case BatchSize fo of None \<Rightarrow> [] | Some bs \<Rightarrow> [(''batchSize'', Int32 bs)]) @
        (case MaxAwaitTime fo of None \<Rightarrow> [] | Some d \<Rightarrow> [(''maxTimeMS'', Int64 (durationMilliseconds d))]) \<and>
      filter (\<lambda>el. fst el = ''maxTimeMS'') added =
        (case MaxTime fo of None \<Rightarrow> [] | Some d \<Rightarrow> [(''maxTimeMS'', Int64 (durationMilliseconds d))]) \<and>
      ''maxAwaitTimeMS'' \<notin> fst ` set added \<and>
      (CursorType fo = Some TailableAwait \<longrightarrow>
         (''tailable'', Boolean True) \<in> set added \<and> (''awaitData'', Boolean True) \<in> set added))"
proof (intro conjI allI)
  show "Find env cmd fo = RoundTrip env cmd'"
    by (simp add: Find_def sent)
next
  fix rt
  show "Find (env\<lparr> RoundTrip := rt \<rparr>) cmd fo = rt cmd'"
    by (simp add: Find_def Find_prepare_RoundTrip sent)
next
  from sent obtain desc c0 where s: "Find_setup env cmd = Inr (desc, c0)"
    and o: "Find_options env desc fo c0 = Continue cmd'"
    by (auto simp: Find_prepare_def split: sum.splits)
  from Find_setup_Inr [OF s] have c0: "Opts c0 = Opts cmd" "CursorOpts c0 = CursorOpts cmd" by simp_all
  from foldl_runStep_Continue [OF o [unfolded Find_options_def]]
  have cmd': "cmd' = c0\<lparr> Opts := Opts c0 @ concat (map stepOpts (Find_steps env desc fo)),
             CursorOpts := CursorOpts c0 @ concat (map stepCursorOpts (Find_steps env desc fo)) \<rparr>"
    by simp
  show "\<exists>added. Opts cmd' = Opts cmd @ added \<and>
      CursorOpts cmd' = CursorOpts cmd @
        (case BatchSize fo of None \<Rightarrow> [] | Some bs \<Rightarrow> [(''batchSize'', Int32 bs)]) @
        (case MaxAwaitTime fo of None \<Rightarrow> [] | Some d \<Rightarrow> [(''maxTimeMS'', Int64 (durationMilliseconds d))]) \<and>
      filter (\<lambda>el. fst el = ''maxTimeMS'') added =
        (case MaxTime fo of None \<Rightarrow> [] | Some d \<Rightarrow> [(''maxTimeMS'', Int64 (durationMilliseconds d))]) \<and>
      ''maxAwaitTimeMS'' \<notin> fst ` set added \<and>
      (CursorType fo = Some TailableAwait \<longrightarrow>
         (''tailable'', Boolean True) \<in> set added \<and> (''awaitData'', Boolean True) \<in> set added)"
  proof (intro exI [of _ "concat (map stepOpts (Find_steps env desc fo))"] conjI)
    show "Opts cmd' = Opts cmd @ concat (map stepOpts (Find_steps env desc fo))"
      by (simp add: cmd' c0)
    show "CursorOpts cmd' = CursorOpts cmd @
        (case BatchSize fo of None \<Rightarrow> [] | Some bs \<Rightarrow> [(''batchSize'', Int32 bs)]) @
        (case MaxAwaitTime fo of None \<Rightarrow> [] | Some d \<Rightarrow> [(''maxTimeMS'', Int64 (durationMilliseconds d))])"
      by (simp only: cmd' c0 Find_steps_CursorOpts) simp
    show "filter (\<lambda>el. fst el = ''maxTimeMS'') (concat (map stepOpts (Find_steps env desc fo))) =
        (case MaxTime fo of None \<Rightarrow> [] | Some d \<Rightarrow> [(''maxTimeMS'', Int64 (durationMilliseconds d))])"
      by (rule Find_steps_maxTimeMS [OF key])
    show "''maxAwaitTimeMS'' \<notin> fst ` set (concat (map stepOpts (Find_steps env desc fo)))"
      by (rule Find_steps_no_maxAwaitTimeMS [OF key])
    show "CursorType fo = Some TailableAwait \<longrightarrow>
         (''tailable'', Boolean True) \<in> set (concat (map stepOpts (Find_steps env desc fo))) \<and>
         (''awaitData'', Boolean True) \<in> set (concat (map stepOpts (Find_steps env desc fo)))"
      using Find_steps_tailableAwait by blast
  qed
qed

theorem Find_MaxAwaitTime_only_getMore_witness:
  "\<exists>cmd'. Find_prepare (testEnv 6) findCmd tailableAwaitOptions = Continue cmd' \<and>
      Find (testEnv 6) findCmd tailableAwaitOptions = RoundTrip (testEnv 6) cmd' \<and>
      Find (testEnv 6) findCmd tailableAwaitOptions =
        Inr ([(''batchSize'', Int32 3), (''tailable'', Boolean True), (''awaitData'', Boolean True)],
             [(''batchSize'', Int32 3), (''maxTimeMS'', Int64 250)]) \<and>
      Opts cmd' = [(''batchSize'', Int32 3), (''tailable'', Boolean True), (''awaitData'', Boolean True)] \<and>
      CursorOpts cmd' = [(''batchSize'', Int32 3), (''maxTimeMS'', Int64 250)] \<and>
      filter (\<lambda>el. fst el = ''maxTimeMS'') (Opts cmd') = [] \<and>
      ''maxAwaitTimeMS'' \<notin> fst ` set (Opts cmd')"
proof -
  let ?cmd = "findCmd\<lparr> Opts := [(''batchSize'', Int32 3), (''tailable'', Boolean True),
                                (''awaitData'', Boolean True)],
        CursorOpts := [(''batchSize'', Int32 3), (''maxTimeMS'', Int64 250)], Session := Some 1 \<rparr>"
  have sent: "Find_prepare (testEnv 6) findCmd tailableAwaitOptions = Continue ?cmd"
    by (simp add: Find_unfold tailableAwaitOptions_def durationMilliseconds_250)
  have "Find (testEnv 6) findCmd tailableAwaitOptions = RoundTrip (testEnv 6) ?cmd \<and>
    (\<forall>rt. Find ((testEnv 6)\<lparr> RoundTrip := rt \<rparr>) findCmd tailableAwaitOptions = rt ?cmd) \<and>
    (\<exists>added. Opts ?cmd = Opts findCmd @ added \<and>
      CursorOpts ?cmd = CursorOpts findCmd @
        (case BatchSize tailableAwaitOptions of None \<Rightarrow> [] | Some bs \<Rightarrow> [(''batchSize'', Int32 bs)]) @
        (case MaxAwaitTime tailableAwaitOptions of None \<Rightarrow> []
         | Some d \<Rightarrow> [(''maxTimeMS'', Int64 (durationMilliseconds d))]) \<and>
      filter (\<lambda>el. fst el = ''maxTimeMS'') added =
        (case MaxTime tailableAwaitOptions of None \<Rightarrow> []
         | Some d \<Rightarrow> [(''maxTimeMS'', Int64 (durationMilliseconds d))]) \<and>
      ''maxAwaitTimeMS'' \<notin> fst ` set added \<and>
      (CursorType tailableAwaitOptions = Some TailableAwait \<longrightarrow>
         (''tailable'', Boolean True) \<in> set added \<and> (''awaitData'', Boolean True) \<in> set added))"
  proof (rule Find_MaxAwaitTime_only_getMore [OF _ sent])
    fix k v el
    assume "interfaceToElement (testEnv 6) k v = Inr el"
    then show "fst el = k" by (auto simp: testEnv_def)
  qed
  then obtain added where rt: "Find (testEnv 6) findCmd tailableAwaitOptions = RoundTrip (testEnv 6) ?cmd"
    and "Opts ?cmd = Opts findCmd @ added"
    and "filter (\<lambda>el. fst el = ''maxTimeMS'') added =
        (case MaxTime tailableAwaitOptions of None \<Rightarrow> []
         | Some d \<Rightarrow> [(''maxTimeMS'', Int64 (durationMilliseconds d))])"
    and "''maxAwaitTimeMS'' \<notin> fst ` set added"
    by blast
  then have "filter (\<lambda>el. fst el = ''maxTimeMS'') (Opts ?cmd) = []"
    and "''maxAwaitTimeMS'' \<notin> fst ` set (Opts ?cmd)"
    by (simp_all add: findCmd_def tailableAwaitOptions_def noOptions_def)
  moreover from rt have "Find (testEnv 6) findCmd tailableAwaitOptions =
        Inr ([(''batchSize'', Int32 3), (''tailable'', Boolean True), (''awaitData'', Boolean True)],
             [(''batchSize'', Int32 3), (''maxTimeMS'', Int64 250)])"
    by (simp add: testEnv_def)
  ultimately show ?thesis
    using sent rt by (intro exI [of _ ?cmd]) simp
qed

subsection \<open>dispatch.Find: collation against an old server\<close>






subsection \<open>OneBundle.Unbundle\<close>

lemma bundleLength_collect:
  "bundleLength_loop ob n = n + int (length (collect ob))"
  "bundleLength (ob :: 'w OneBundle) = int (length (collect ob))"
  by (induction ob n and ob rule: bundleLength_loop_bundleLength.induct) simp_all

lemma copy_nested_eq:
  "0 \<le> s \<Longrightarrow> nat s + length ops \<le> length options \<Longrightarrow>
     copy_nested options s ops = Some (take (nat s) options @ ops @ drop (nat s + length ops) options)"
proof (induction ops arbitrary: options s)
  case Nil
  then show ?case by simp
next
  case (Cons op ops)
  have lt: "nat s < length options" using Cons.prems by simp
  have "copy_nested (options[nat s := op]) (s + 1) ops =
      Some (take (nat (s + 1)) (options[nat s := op]) @ ops @
            drop (nat (s + 1) + length ops) (options[nat s := op]))"
    using Cons.prems by (intro Cons.IH) auto
  moreover have "nat (s + 1) = Suc (nat s)" using Cons.prems by simp
  moreover have "take (Suc (nat s)) (options[nat s := op]) = take (nat s) options @ [op]"
    using lt by (simp add: take_Suc_conv_app_nth)
  ultimately show ?case using Cons.prems lt by simp
qed

lemma unbundle_collect:
  "index + 1 = int (length (collect ob)) \<Longrightarrow> length (collect ob) \<le> length options \<Longrightarrow>
     unbundle_loop ob options index =
       Some (map Some (collect ob) @ drop (length (collect ob)) options)"
  "OneBundle_unbundle (ob :: 'w OneBundle) = Some (map Some (collect ob))"
proof (induction ob options index and ob rule: unbundle_loop_OneBundle_unbundle.induct)
  case (1 options index)
  then show ?case by simp
next
  case (2 nxt options index)
  then show ?case by simp
next
  case (3 converted nxt options index)
  let ?n = "map Some (collect converted)"
  have u: "OneBundle_unbundle converted = Some ?n" by (rule 3)
  have s: "index - int (length ?n) + 1 = int (length (collect nxt))"
    using "3.prems" by simp
  have s': "nat (index - int (length ?n) + 1) = length (collect nxt)"
    using s by simp
  have c: "copy_nested options (index - int (length ?n) + 1) ?n =
      Some (take (length (collect nxt)) options @ ?n @
            drop (length (collect nxt) + length ?n) options)"
    using "3.prems" by (subst copy_nested_eq) (simp_all only: s s', simp_all)
  let ?o = "take (length (collect nxt)) options @ ?n @
            drop (length (collect nxt) + length ?n) options"
  have l: "unbundle_loop nxt ?o (index - int (length ?n)) =
      Some (map Some (collect nxt) @ drop (length (collect nxt)) ?o)"
    using "3.prems" s by (intro "3.IH"(2) [OF u c]) simp_all
  have "unbundle_loop (Node (Bundle converted) nxt) options index =
      unbundle_loop nxt ?o (index - int (length ?n))"
    by (simp only: unbundle_loop.simps u c option.case)
  also note l
  finally show ?case using "3.prems" by simp
next
  case 5
  then show ?case by simp
next
  case (6 opt nxt)
  then show ?case by (simp add: bundleLength_collect Let_def)
qed (simp_all add: upd_conv_take_nth_drop)


lemma keep_last_snoc:
  "keep_last f (ys @ [x]) = filter (\<lambda>y. f y \<noteq> f x) (keep_last f ys) @ [x]"
  by (induction ys) auto

lemma keep_last_map: "keep_last f (map g xs) = map g (keep_last (f \<circ> g) xs)"
  by (induction xs) (auto simp: image_image)

lemma set_keep_last: "f ` set (keep_last f xs) = f ` set xs"
  by (induction xs) auto

lemma distinct_keep_last: "distinct (map f (keep_last f xs))"
proof (induction xs)
  case Nil
  then show ?case by simp
next
  case (Cons x xs)
  have "f ` set (keep_last f xs) = f ` set xs" by (rule set_keep_last)
  with Cons show ?case by auto
qed

lemma subseq_keep_last: "subseq (keep_last f xs) xs"
  by (induction xs) auto

lemma keep_last_is_last:
  "keep_last f (ys @ x # zs) =
     filter (\<lambda>y. f y \<notin> f ` set (x # zs)) (keep_last f ys) @ keep_last f (x # zs)"
  by (induction ys) auto

declare dedup_loop.simps [simp del]

lemma dedup_loop_keep_last:
  "- 1 \<le> i \<Longrightarrow> i < int (length options) \<Longrightarrow>
     dedup_loop options i S =
       Some (filter (\<lambda>x. reflect_TypeOf x \<notin> S) (keep_last reflect_TypeOf (take (nat (i + 1)) options))
             @ drop (nat (i + 1)) options)"
proof (induction options i S rule: dedup_loop.induct)
  case (1 options i S)
  show ?case
  proof (cases "i \<ge> 0")
    case False
    with "1.prems" have "i = - 1" by simp
    then show ?thesis by (subst dedup_loop.simps) simp
  next
    case True
    let ?x = "options ! nat i"
    have lt: "nat i < length options" using True "1.prems" by simp
    have n: "nat (i + 1) = Suc (nat i)" "nat (i - 1 + 1) = nat i" using True by simp_all
    have tk: "take (Suc (nat i)) options = take (nat i) options @ [?x]"
      using lt by (simp add: take_Suc_conv_app_nth)
    show ?thesis
    proof (cases "reflect_TypeOf ?x \<in> S")
      case In: True
      let ?o = "take (nat i) options @ drop (nat i + 1) options"
      have len: "int (length ?o) = int (length options) - 1" using lt by simp
      have "dedup_loop ?o (i - 1) S =
          Some (filter (\<lambda>x. reflect_TypeOf x \<notin> S)
                  (keep_last reflect_TypeOf (take (nat (i - 1 + 1)) ?o))
                @ drop (nat (i - 1 + 1)) ?o)"
        using True "1.prems" In len by (intro "1.IH"(1)) simp_all
      moreover have "take (nat i) ?o = take (nat i) options" "drop (nat i) ?o = drop (nat i + 1) options"
        using lt by simp_all
      moreover have "filter (\<lambda>x. reflect_TypeOf x \<notin> S)
            (filter (\<lambda>y. reflect_TypeOf y \<noteq> reflect_TypeOf ?x) (keep_last reflect_TypeOf (take (nat i) options)))
          = filter (\<lambda>x. reflect_TypeOf x \<notin> S) (keep_last reflect_TypeOf (take (nat i) options))"
        using In by (auto intro: filter_cong)
      ultimately show ?thesis
        using True lt In by (subst dedup_loop.simps) (simp add: n tk keep_last_snoc Let_def)
    next
      case Out: False
      have "dedup_loop options (i - 1) (insert (reflect_TypeOf ?x) S) =
          Some (filter (\<lambda>x. reflect_TypeOf x \<notin> insert (reflect_TypeOf ?x) S)
                  (keep_last reflect_TypeOf (take (nat (i - 1 + 1)) options))
                @ drop (nat (i - 1 + 1)) options)"
        using True "1.prems" Out by (intro "1.IH"(2)) simp_all
      moreover have "drop (nat i) options = ?x # drop (Suc (nat i)) options"
        using lt by (simp add: Cons_nth_drop_Suc)
      moreover have "filter (\<lambda>x. reflect_TypeOf x \<notin> S)
            (filter (\<lambda>y. reflect_TypeOf y \<noteq> reflect_TypeOf ?x) (keep_last reflect_TypeOf (take (nat i) options)))
          = filter (\<lambda>x. reflect_TypeOf x \<notin> insert (reflect_TypeOf ?x) S)
              (keep_last reflect_TypeOf (take (nat i) options))"
        by (auto intro: filter_cong)
      ultimately show ?thesis
        using True lt Out by (subst dedup_loop.simps) (simp add: n tk keep_last_snoc Let_def)
    qed
  qed
qed

lemma Unbundle_collect:
  "OneBundle_Unbundle ob False = Some (map Some (collect ob))"
  "OneBundle_Unbundle ob True = Some (map Some (keep_last TypeOf (collect ob)))"
proof -
  show "OneBundle_Unbundle ob False = Some (map Some (collect ob))"
    by (simp add: OneBundle_Unbundle_def unbundle_collect)
  have "dedup_loop (map Some (collect ob)) (int (length (map Some (collect ob))) - 1) {} =
      Some (keep_last reflect_TypeOf (map Some (collect ob)))"
    by (subst dedup_loop_keep_last) simp_all
  moreover have "reflect_TypeOf \<circ> Some = (TypeOf :: 'a InsertOptioner \<Rightarrow> Type option)"
    by (auto simp: TypeOf_def)
  ultimately show "OneBundle_Unbundle ob True = Some (map Some (keep_last TypeOf (collect ob)))"
    by (simp add: OneBundle_Unbundle_def unbundle_collect keep_last_map)
qed

lemma collect_added_options:
  "nil_only_last ob \<Longrightarrow> collect ob = added_options ob"
  by (induction ob rule: collect.induct) simp_all

lemma Unbundle_without_nil:
  assumes "nil_only_last ob"
  shows "OneBundle_Unbundle ob False = Some (map Some (added_options ob))"
    and "OneBundle_Unbundle ob True = Some (map Some (keep_last TypeOf (added_options ob)))"
  using assms by (simp_all add: Unbundle_collect collect_added_options)

lemma added_options_foldl:
  "added_options (foldl (\<lambda>head opt. Node opt head) ob opts) = added_options ob @ concat (map expand opts)"
  by (induction opts arbitrary: ob) simp_all

lemma added_options_BundleOne: "added_options (BundleOne opts) = concat (map expand opts)"
  by (simp add: BundleOne_def added_options_foldl oneBundle_def)

lemma nil_only_last_foldl:
  "nil_only_last ob \<Longrightarrow> NilOne \<notin> set opts \<Longrightarrow> list_all nil_only_last_One opts \<Longrightarrow>
     nil_only_last (foldl (\<lambda>head opt. Node opt head) ob opts)"
  by (induction opts arbitrary: ob) auto

lemma nil_only_last_BundleOne:
  "NilOne \<notin> set opts \<Longrightarrow> list_all nil_only_last_One opts \<Longrightarrow> nil_only_last (BundleOne opts)"
  by (simp add: BundleOne_def nil_only_last_foldl oneBundle_def)

text \<open>
  C8. \<^verbatim>\<open>Unbundle(false)\<close> does not return the options in the order they were added for
  every bundle: its loops stop at the first \<^verbatim>\<open>nil\<close> option, so the options added before a
  \<^verbatim>\<open>nil\<close> are dropped. \<^verbatim>\<open>BundleOne(BypassDocumentValidation(true), nil)\<close> unbundles to no
  option at all, and so does the bundle of the test "Nil Option Bundle", which expects
  one option. (For a bundle without such a \<^verbatim>\<open>nil\<close> the claim holds: \<open>Unbundle_without_nil\<close>.)
\<close>

theorem Unbundle_stops_at_nil:
  "OneBundle_Unbundle (BundleOne [BypassDocumentValidation True, NilOne]) False = Some [] \<and>
   added_options (BundleOne [BypassDocumentValidation True, NilOne]) = [OptBypassDocumentValidation True] \<and>
   OneBundle_Unbundle
     (BundleOne [BypassDocumentValidation True, Bundle (BundleOne [NilOne]), NilOne]) False = Some [] \<and>
   OneBundle_Unbundle
     (BundleOne [NilOne, Bundle (BundleOne [NilOne]), BypassDocumentValidation True]) False =
       Some [Some (OptBypassDocumentValidation True)]"
  by (simp add: OneBundle_Unbundle_def BundleOne_def oneBundle_def)

subsection \<open>DefaultStructTagParser\<close>

declare strings_Split.simps [simp del]













text \<open>
  The bare struct tags the statement above leaves open. The doc comment of the parser
  gives the bare format as \<^verbatim>\<open>[<key>][,<flag1>[,<flag2>]]\<close>, and the parser compares
  \<^verbatim>\<open>sf.Tag\<close> with \<^verbatim>\<open>-\<close>; but that comparison stands in the branch of the struct tags with
  a \<^verbatim>\<open>bson\<close> key, and the branch of the bare tags takes the whole tag as the name without
  splitting it: no flag and no \<^verbatim>\<open>-\<close> is read from a bare tag.
\<close>

lemma DefaultStructTagParser_bare_flags:
  "DefaultStructTagParser goStdlib \<lparr> Field_Name = ''Foo'', Field_Tag = ''k,omitempty'' \<rparr> =
     \<lparr> Name = ''k,omitempty'', OmitEmpty = False, MinSize = False, Truncate = False,
       Inline = False, Skip = False \<rparr>"
  "DefaultStructTagParser goStdlib \<lparr> Field_Name = ''Foo'', Field_Tag = ''-'' \<rparr> =
     \<lparr> Name = ''-'', OmitEmpty = False, MinSize = False, Truncate = False,
       Inline = False, Skip = False \<rparr>"
  by (simp_all add: DefaultStructTagParser_def goStdlib_def bsonTag_def strings_Contains_def)

subsection \<open>Unacknowledged writes\<close>

text \<open>
  C5. With an unacknowledged write concern every write method of \<^verbatim>\<open>Collection\<close> returns
  without the result of its operation in package \<^verbatim>\<open>ops\<close> (the only place where a reply
  is read): what it returns is fixed by its local steps alone. It returns \<^verbatim>\<open>nil, nil\<close>
  (\<^verbatim>\<open>false, nil\<close> for the find-and-modify methods) when they succeed, and otherwise the
  error of the first local step that failed: adding the id to the document, the check
  of the update or replacement document, or server selection.
\<close>

theorem unacknowledged_write_returns_without_reply:
  assumes "\<not> Acknowledged coll"
  shows "InsertOne coll document =
           (None, case getOrInsertID coll document of
                    Inl e \<Rightarrow> Some e
                  | Inr p \<Rightarrow> (case getWriteableServer coll of Inl e \<Rightarrow> Some e | Inr s \<Rightarrow> None)) \<and>
         InsertMany coll documents =
           (None, case InsertMany_loop coll documents of
                    Inl e \<Rightarrow> Some e
                  | Inr p \<Rightarrow> (case getWriteableServer coll of Inl e \<Rightarrow> Some e | Inr s \<Rightarrow> None)) \<and>
         DeleteOne coll filter' =
           (None, case getWriteableServer coll of Inl e \<Rightarrow> Some e | Inr s \<Rightarrow> None) \<and>
         DeleteMany coll filter' =
           (None, case getWriteableServer coll of Inl e \<Rightarrow> Some e | Inr s \<Rightarrow> None) \<and>
         UpdateOne coll filter' update =
           (None, case ensureDollarKey coll update of
                    Some e \<Rightarrow> Some e
                  | None \<Rightarrow> (case getWriteableServer coll of Inl e \<Rightarrow> Some e | Inr s \<Rightarrow> None)) \<and>
         UpdateMany coll filter' update =
           (None, case ensureDollarKey coll update of
                    Some e \<Rightarrow> Some e
                  | None \<Rightarrow> (case getWriteableServer coll of Inl e \<Rightarrow> Some e | Inr s \<Rightarrow> None)) \<and>
         ReplaceOne coll filter' update =
           (None, case firstKeyCheck coll False
                         ''replacement document cannot contains keys beginning with '$'' update of
                    Some e \<Rightarrow> Some e
                  | None \<Rightarrow> (case getWriteableServer coll of Inl e \<Rightarrow> Some e | Inr s \<Rightarrow> None)) \<and>
         FindOneAndDelete coll filter' =
           (False, case getWriteableServer coll of Inl e \<Rightarrow> Some e | Inr s \<Rightarrow> None) \<and>
         FindOneAndReplace coll filter' update =
           (False, case firstKeyCheck coll False
                         ''replacement document cannot contains keys beginning with '$'' update of
                    Some e \<Rightarrow> Some e
                  | None \<Rightarrow> (case getWriteableServer coll of Inl e \<Rightarrow> Some e | Inr s \<Rightarrow> None)) \<and>
         FindOneAndUpdate coll filter' update =
           (False, case firstKeyCheck coll True
                         ''update document must contain key beginning with '$'' update of
                    Some e \<Rightarrow> Some e
                  | None \<Rightarrow> (case getWriteableServer coll of Inl e \<Rightarrow> Some e | Inr s \<Rightarrow> None))"
proof -
  have 1: "InsertOne coll document =
           (None, case getOrInsertID coll document of
                    Inl e \<Rightarrow> Some e
                  | Inr p \<Rightarrow> (case getWriteableServer coll of Inl e \<Rightarrow> Some e | Inr s \<Rightarrow> None))"
    using assms by (simp add: InsertOne_def split: sum.splits prod.splits)
  have 2: "InsertMany coll documents =
           (None, case InsertMany_loop coll documents of
                    Inl e \<Rightarrow> Some e
                  | Inr p \<Rightarrow> (case getWriteableServer coll of Inl e \<Rightarrow> Some e | Inr s \<Rightarrow> None))"
    using assms by (simp add: InsertMany_def split: sum.splits prod.splits)
  have 3: "DeleteOne coll filter' =
           (None, case getWriteableServer coll of Inl e \<Rightarrow> Some e | Inr s \<Rightarrow> None)"
    "DeleteMany coll filter' =
           (None, case getWriteableServer coll of Inl e \<Rightarrow> Some e | Inr s \<Rightarrow> None)"
    using assms by (simp_all add: DeleteOne_def DeleteMany_def split: sum.splits)
  have u: "\<And>f u. updateOrReplaceOne coll f u =
           (None, case getWriteableServer coll of Inl e \<Rightarrow> Some e | Inr s \<Rightarrow> None)"
    using assms by (simp add: updateOrReplaceOne_def split: sum.splits)
  have 4: "UpdateOne coll filter' update =
           (None, case ensureDollarKey coll update of
                    Some e \<Rightarrow> Some e
                  | None \<Rightarrow> (case getWriteableServer coll of Inl e \<Rightarrow> Some e | Inr s \<Rightarrow> None))"
    by (simp add: UpdateOne_def u split: option.splits)
  have 5: "UpdateMany coll filter' update =
           (None, case ensureDollarKey coll update of
                    Some e \<Rightarrow> Some e
                  | None \<Rightarrow> (case getWriteableServer coll of Inl e \<Rightarrow> Some e | Inr s \<Rightarrow> None))"
    using assms by (simp add: UpdateMany_def split: option.splits sum.splits)
  have 6: "ReplaceOne coll filter' update =
           (None, case firstKeyCheck coll False
                         ''replacement document cannot contains keys beginning with '$'' update of
                    Some e \<Rightarrow> Some e
                  | None \<Rightarrow> (case getWriteableServer coll of Inl e \<Rightarrow> Some e | Inr s \<Rightarrow> None))"
    by (simp add: ReplaceOne_def u split: option.splits)
  have 7: "FindOneAndDelete coll filter' =
           (False, case getWriteableServer coll of Inl e \<Rightarrow> Some e | Inr s \<Rightarrow> None)"
    using assms by (simp add: FindOneAndDelete_def split: sum.splits)
  have 8: "FindOneAndReplace coll filter' update =
           (False, case firstKeyCheck coll False
                         ''replacement document cannot contains keys beginning with '$'' update of
                    Some e \<Rightarrow> Some e
                  | None \<Rightarrow> (case getWriteableServer coll of Inl e \<Rightarrow> Some e | Inr s \<Rightarrow> None))"
    using assms by (simp add: FindOneAndReplace_def split: option.splits sum.splits)
  have 9: "FindOneAndUpdate coll filter' update =
           (False, case firstKeyCheck coll True
                         ''update document must contain key beginning with '$'' update of
                    Some e \<Rightarrow> Some e
                  | None \<Rightarrow> (case getWriteableServer coll of Inl e \<Rightarrow> Some e | Inr s \<Rightarrow> None))"
    using assms by (simp add: FindOneAndUpdate_def split: option.splits sum.splits)
  from 1 2 3 4 5 6 7 8 9 show ?thesis by (intro conjI)
qed

theorem unacknowledged_write_returns_without_reply_witness:
  "InsertOne failingServer 1 = (None, None) \<and>
   DeleteOne failingServer 1 = (None, None) \<and>
   UpdateOne failingServer 1 2 = (None, None) \<and>
   FindOneAndDelete failingServer 1 = (False, None) \<and>
   InsertOne (failingServer\<lparr> Acknowledged := True \<rparr>) 1 = (None, Some (Error ''duplicate key''))"
proof -
  have u: "\<not> Acknowledged failingServer"
    by (simp add: failingServer_def)
  have "InsertOne (failingServer\<lparr> Acknowledged := True \<rparr>) 1 = (None, Some (Error ''duplicate key''))"
    by (simp add: InsertOne_def failingServer_def)
  with unacknowledged_write_returns_without_reply [OF u, of 1 "[]" 1 2]
  show ?thesis
    by (simp add: failingServer_def)
qed

subsection \<open>The cluster clock\<close>

lemma timestamp_less_trans:
  "timestamp_less a b \<Longrightarrow> timestamp_less b c \<Longrightarrow> timestamp_less a c"
  by (auto simp: timestamp_less_def)

lemma timestamp_less_linear:
  "timestamp_less a b \<or> a = b \<or> timestamp_less b a"
  by (cases a; cases b) (auto simp: timestamp_less_def)

lemma timestamp_less_irrefl: "\<not> timestamp_less a a"
  by (simp add: timestamp_less_def)

lemma MaxClusterTime_cases:
  "MaxClusterTime a b = a \<or> MaxClusterTime a b = b"
  by (simp add: MaxClusterTime_def)

lemma MaxClusterTime_upper:
  "\<not> timestamp_less (clusterTimestamp (MaxClusterTime a b)) (clusterTimestamp a)"
  "\<not> timestamp_less (clusterTimestamp (MaxClusterTime a b)) (clusterTimestamp b)"
  using timestamp_less_trans [of "clusterTimestamp a" "clusterTimestamp b" "clusterTimestamp a"]
  by (auto simp: MaxClusterTime_def timestamp_less_irrefl)

lemma not_less_trans:
  "\<not> timestamp_less b a \<Longrightarrow> \<not> timestamp_less c b \<Longrightarrow> \<not> timestamp_less c a"
  using timestamp_less_linear [of a b] timestamp_less_linear [of b c]
  by (auto dest: timestamp_less_trans)

lemma foldl_AdvanceClusterTime:
  "clusterTime (foldl AdvanceClusterTime cc cts) \<in> set (clusterTime cc # cts) \<and>
   (\<forall>ct \<in> set (clusterTime cc # cts).
      \<not> timestamp_less (clusterTimestamp (clusterTime (foldl AdvanceClusterTime cc cts)))
          (clusterTimestamp ct))"
proof (induction cts arbitrary: cc)
  case Nil
  then show ?case by (simp add: timestamp_less_irrefl)
next
  case (Cons ct cts)
  let ?cc = "AdvanceClusterTime cc ct"
  let ?r = "clusterTime (foldl AdvanceClusterTime ?cc cts)"
  have m: "clusterTime ?cc = MaxClusterTime (clusterTime cc) ct"
    by (simp add: AdvanceClusterTime_def)
  from Cons.IH [of ?cc]
  have mem: "?r \<in> set (clusterTime ?cc # cts)"
    and up: "\<forall>c \<in> set (clusterTime ?cc # cts). \<not> timestamp_less (clusterTimestamp ?r) (clusterTimestamp c)"
    by simp_all
  from up have top: "\<not> timestamp_less (clusterTimestamp ?r) (clusterTimestamp (clusterTime ?cc))"
    by simp
  have a: "\<not> timestamp_less (clusterTimestamp ?r) (clusterTimestamp (clusterTime cc))"
    using not_less_trans [OF MaxClusterTime_upper(1) top [unfolded m]] .
  have b: "\<not> timestamp_less (clusterTimestamp ?r) (clusterTimestamp ct)"
    using not_less_trans [OF MaxClusterTime_upper(2) top [unfolded m]] .
  have "?r \<in> set (clusterTime cc # ct # cts)"
    using mem MaxClusterTime_cases [of "clusterTime cc" ct] by (auto simp: m)
  with a b up show ?case by simp
qed

lemma clusterTimestamp_clusterTimeDoc [simp]: "clusterTimestamp (clusterTimeDoc t i) = (t, i)"
  by (simp add: clusterTimestamp_def clusterTimeDoc_def)

text \<open>
  C2. After any sequence of \<^verbatim>\<open>AdvanceClusterTime\<close> calls on a clock, the stored cluster
  time is one of the documents passed or the initial one, and no document among them has
  a greater \<^verbatim>\<open>clusterTime\<close> timestamp. After advancing an empty clock with
  \<^verbatim>\<open>Timestamp(5,0)\<close>, \<^verbatim>\<open>Timestamp(3,0)\<close> and \<^verbatim>\<open>Timestamp(7,0)\<close>, reading the clock returns the
  document with \<^verbatim>\<open>Timestamp(7,0)\<close>.
\<close>

theorem AdvanceClusterTime_monotone:
  "GetClusterTime (foldl AdvanceClusterTime cc cts) \<in> set (clusterTime cc # cts) \<and>
   (\<forall>ct \<in> set (clusterTime cc # cts).
      \<not> timestamp_less (clusterTimestamp (GetClusterTime (foldl AdvanceClusterTime cc cts)))
          (clusterTimestamp ct)) \<and>
   GetClusterTime
     (foldl AdvanceClusterTime \<lparr> clusterTime = [] \<rparr>
        [clusterTimeDoc 5 0, clusterTimeDoc 3 0, clusterTimeDoc 7 0]) = clusterTimeDoc 7 0"
proof -
  have "GetClusterTime
     (foldl AdvanceClusterTime \<lparr> clusterTime = [] \<rparr>
        [clusterTimeDoc 5 0, clusterTimeDoc 3 0, clusterTimeDoc 7 0]) = clusterTimeDoc 7 0"
    by (simp add: GetClusterTime_def AdvanceClusterTime_def MaxClusterTime_def timestamp_less_def)
      (simp add: clusterTimestamp_def)
  with foldl_AdvanceClusterTime [of cc cts] show ?thesis
    by (simp add: GetClusterTime_def)
qed

theorem AdvanceClusterTime_monotone_witness:
  "GetClusterTime
     (foldl AdvanceClusterTime \<lparr> clusterTime = clusterTimeDoc 2 9 \<rparr>
        [clusterTimeDoc 5 0, clusterTimeDoc 3 0, clusterTimeDoc 7 0, clusterTimeDoc 7 0,
         clusterTimeDoc 6 4]) = clusterTimeDoc 7 0"
proof -
  let ?cc = "\<lparr> clusterTime = clusterTimeDoc 2 9 \<rparr>"
  let ?cts = "[clusterTimeDoc 5 0, clusterTimeDoc 3 0, clusterTimeDoc 7 0, clusterTimeDoc 7 0,
         clusterTimeDoc 6 4]"
  let ?r = "GetClusterTime (foldl AdvanceClusterTime ?cc ?cts)"
  from AdvanceClusterTime_monotone [of ?cc ?cts]
  have mem: "?r \<in> set (clusterTime ?cc # ?cts)"
    and up: "\<not> timestamp_less (clusterTimestamp ?r) (clusterTimestamp (clusterTimeDoc 7 0))"
    by simp_all
  from mem have "?r = clusterTimeDoc 2 9 \<or> ?r = clusterTimeDoc 5 0 \<or> ?r = clusterTimeDoc 3 0 \<or>
      ?r = clusterTimeDoc 7 0 \<or> ?r = clusterTimeDoc 6 4"
    by simp
  then show ?thesis
    using up by (elim disjE) (simp_all add: timestamp_less_def)
qed

subsection \<open>The encoded form of a document\<close>

lemma length_le_bytes [simp]: "length (le_bytes n w) = n"
  by (simp add: le_bytes_def)

lemma length_int32 [simp]: "length (int32 w) = 4"
  by (simp add: int32_def)

lemma word_of_le_int32: "word_of_le (int32 w) = w"
  unfolding int32_def
proof (rule bit_word_eqI)
  fix n :: nat
  assume n: "n < LENGTH(32)"
  have e: "word_of_le (le_bytes 4 w) =
      (ucast (ucast w :: byte) OR push_bit 8 (ucast (ucast (drop_bit 8 w) :: byte)
        OR push_bit 8 (ucast (ucast (drop_bit 16 w) :: byte)
        OR push_bit 8 (ucast (ucast (drop_bit 24 w) :: byte)))) :: 32 word)"
    by (simp add: word_of_le_def le_bytes_def upt_rec)
  consider "n < 8" | "8 \<le> n" "n < 16" | "16 \<le> n" "n < 24" | "24 \<le> n" "n < 32"
    using n by fastforce
  then show "bit (word_of_le (le_bytes 4 w) :: 32 word) n = bit w n"
  proof cases
    case 1
    then show ?thesis unfolding e by (simp add: bit_simps)
  next
    case 2
    then show ?thesis unfolding e by (auto simp: bit_simps)
  next
    case 3
    then show ?thesis unfolding e by (auto simp: bit_simps)
  next
    case 4
    then show ?thesis unfolding e by (auto simp: bit_simps)
  qed
qed

lemma length_document_frame: "length (document_frame elements) = length elements + 5"
  by (simp add: document_frame_def)

lemma document_frame_prefix:
  "take 4 (document_frame elements) = int32 (word_of_nat (length (document_frame elements)))"
  by (simp add: document_frame_def add.commute)

lemma sint_word_of_nat_32:
  "n < 2 ^ 31 \<Longrightarrow> sint (word_of_nat n :: 32 word) = int n"
proof -
  assume "n < 2 ^ 31"
  then have "int n < int (2 ^ 31)" by (simp only: of_nat_less_iff)
  then have "int n < 2 ^ 31" by simp
  moreover have "- (2 ^ 31) \<le> int n" by simp
  ultimately have "signed_take_bit 31 (int n) = int n"
    by (rule signed_take_bit_int_eq_self [rotated])
  then show ?thesis
    by (simp add: signed_of_nat)
qed

text \<open>
  The fixtures of the spec and of the tests \<^verbatim>\<open>TestEncoder\<close> and
  \<^verbatim>\<open>Test_ParseObjectToBuilder\<close>, byte for byte.
\<close>

lemma encodeDocument_empty: "encodeDocument [] = [0x05, 0x00, 0x00, 0x00, 0x00]"
  by (simp add: encodeDocument_def document_frame_def int32_def le_bytes_def upt_rec)

lemma encodeDocument_foo_null:
  "encodeDocument [(''foo'', Null)] =
     [0x0A, 0x00, 0x00, 0x00, 0x0A, 0x66, 0x6F, 0x6F, 0x00, 0x00]"
  by (simp add: encodeDocument_def encodeElement_def element_def cstring_def document_frame_def
      int32_def le_bytes_def upt_rec)

lemma encodeDocument_hello_world:
  "encodeDocument [(''hello'', String ''world'')] =
     [0x16, 0x00, 0x00, 0x00, 0x02, 0x68, 0x65, 0x6C, 0x6C, 0x6F, 0x00,
      0x06, 0x00, 0x00, 0x00, 0x77, 0x6F, 0x72, 0x6C, 0x64, 0x00, 0x00]"
  by (simp add: encodeDocument_def encodeElement_def element_def cstring_def document_frame_def
      bson_string_def int32_def le_bytes_def upt_rec)

declare decimal.simps [simp del]

lemma decimal_digits: "decimal 0 = ''0''" "decimal (Suc 0) = ''1''"
  by code_simp+

lemma encodeDocument_builder_test:
  "encodeDocument
     [(''a'', Null), (''b'', Boolean False),
      (''c'', Array [String ''foo'', Double 0xC00599999999999A]),
      (''d'', Document [(''efg'', Int64 4)])] =
     [0x3f, 0x0, 0x0, 0x0,
      0xa, 0x61, 0x0,
      0x8, 0x62, 0x0, 0x0,
      0x4, 0x63, 0x0,
      0x1b, 0x0, 0x0, 0x0,
      0x2, 0x30, 0x0, 0x4, 0x0, 0x0, 0x0, 0x66, 0x6f, 0x6f, 0x0,
      0x1, 0x31, 0x0, 0x9a, 0x99, 0x99, 0x99, 0x99, 0x99, 0x5, 0xc0,
      0x0,
      0x3, 0x64, 0x0,
      0x12, 0x0, 0x0, 0x0,
      0x12, 0x65, 0x66, 0x67, 0x0, 0x4, 0x0, 0x0, 0x0, 0x0, 0x0, 0x0, 0x0,
      0x0,
      0x0]"
  by (simp add: encodeDocument_def encodeElement_def element_def cstring_def document_frame_def
      bson_string_def int32_def le_bytes_def upt_rec enumerate_eq_zip decimal_digits)

text \<open>
  C1. The encoded form of every document begins with the four bytes of the
  little-endian int32 of its total byte length (read back, they give that length as a
  32-bit word, and as a signed number whenever the length is below \<open>2^31\<close>, the range of
  an int32) and ends with a NUL byte. The document with no elements encodes to
  \<^verbatim>\<open>05 00 00 00 00\<close>, the document \<^verbatim>\<open>{"foo": null}\<close> to \<^verbatim>\<open>0A 00 00 00 0A 66 6F 6F 00 00\<close>.
\<close>

theorem encodeDocument_length_prefix:
  "take 4 (encodeDocument d) = int32 (word_of_nat (length (encodeDocument d))) \<and>
   (word_of_le (take 4 (encodeDocument d)) :: 32 word) = word_of_nat (length (encodeDocument d)) \<and>
   (length (encodeDocument d) < 2 ^ 31 \<longrightarrow>
      sint (word_of_le (take 4 (encodeDocument d)) :: 32 word) = int (length (encodeDocument d))) \<and>
   last (encodeDocument d) = 0 \<and>
   encodeDocument [] = [0x05, 0x00, 0x00, 0x00, 0x00] \<and>
   encodeDocument [(''foo'', Null)] =
     [0x0A, 0x00, 0x00, 0x00, 0x0A, 0x66, 0x6F, 0x6F, 0x00, 0x00]"
proof -
  have p: "take 4 (encodeDocument d) = int32 (word_of_nat (length (encodeDocument d)))"
    unfolding encodeDocument_def by (rule document_frame_prefix)
  have l: "last (encodeDocument d) = 0"
    by (simp add: encodeDocument_def document_frame_def)
  have s: "length (encodeDocument d) < 2 ^ 31 \<longrightarrow>
      sint (word_of_le (take 4 (encodeDocument d)) :: 32 word) = int (length (encodeDocument d))"
    by (simp only: p word_of_le_int32) (rule impI, rule sint_word_of_nat_32)
  have w: "(word_of_le (take 4 (encodeDocument d)) :: 32 word) = word_of_nat (length (encodeDocument d))"
    by (simp only: p word_of_le_int32)
  from p w s l encodeDocument_empty encodeDocument_foo_null show ?thesis
    by (intro conjI)
qed

theorem encodeDocument_length_prefix_witness:
  "length (encodeDocument [(''a'', Int32 1), (''b'', Int64 2)]) = 23 \<and>
   take 4 (encodeDocument [(''a'', Int32 1), (''b'', Int64 2)]) = [0x17, 0x00, 0x00, 0x00] \<and>
   sint (word_of_le (take 4 (encodeDocument [(''a'', Int32 1), (''b'', Int64 2)])) :: 32 word) = 23"
proof -
  let ?d = "[(''a'', Int32 1), (''b'', Int64 2)]"
  have len: "length (encodeDocument ?d) = 23"
    by (simp add: encodeDocument_def encodeElement_def element_def cstring_def
        length_document_frame)
  then have "length (encodeDocument ?d) < 2 ^ 31" by simp
  have lt: "length (encodeDocument ?d) < 2 ^ 31"
    by (simp add: len)
  from encodeDocument_length_prefix [of ?d]
  have t: "take 4 (encodeDocument ?d) = int32 (word_of_nat (length (encodeDocument ?d)))"
    and s: "length (encodeDocument ?d) < 2 ^ 31 \<longrightarrow>
      sint (word_of_le (take 4 (encodeDocument ?d)) :: 32 word) = int (length (encodeDocument ?d))"
    by blast+
  from s lt have "sint (word_of_le (take 4 (encodeDocument ?d)) :: 32 word) = int (length (encodeDocument ?d))"
    by (rule mp)
  then have s': "sint (word_of_le (take 4 (encodeDocument ?d)) :: 32 word) = 23"
    by (simp add: len)
  have "int32 (word_of_nat 23) = [0x17, 0x00, 0x00, 0x00]"
    by (simp add: int32_def le_bytes_def upt_rec)
  with t have t': "take 4 (encodeDocument ?d) = [0x17, 0x00, 0x00, 0x00]"
    by (simp only: len)
  from len t' s' show ?thesis by (intro conjI)
qed

subsection \<open>Next on a tailable-await cursor\<close>






subsection \<open>DocumentResult.Decode\<close>

text \<open>
  C10. \<^verbatim>\<open>DocumentResult.Decode\<close> observes this error precedence: an error stored by the
  originating operation is returned first (the cursor is not touched); otherwise, when
  the cursor has no next document, the cursor's own error is returned if it is non-nil
  and \<^verbatim>\<open>ErrNoDocuments\<close> if the cursor is merely empty; otherwise, when the destination
  is nil, \<^verbatim>\<open>Decode\<close> returns nil without decoding (the cursor is in the state \<^verbatim>\<open>Next\<close>
  left it in and the destination is still nil).
\<close>

theorem DocumentResult_Decode_precedence:
  "(\<forall>e. err dr = Some e \<longrightarrow> DocumentResult_Decode I dr v = (Some e, cur dr, v)) \<and>
   (\<forall>c' e. err dr = None \<and> Next I (cur dr) = (False, c') \<and> Err I c' = Some e \<longrightarrow>
        DocumentResult_Decode I dr v = (Some e, c', v)) \<and>
   (\<forall>c'. err dr = None \<and> Next I (cur dr) = (False, c') \<and> Err I c' = None \<longrightarrow>
        DocumentResult_Decode I dr v = (Some ErrNoDocuments, c', v)) \<and>
   (\<forall>c'. err dr = None \<and> Next I (cur dr) = (True, c') \<and> v = None \<longrightarrow>
        DocumentResult_Decode I dr v = (None, c', None))"
  by (simp add: DocumentResult_Decode_def)

theorem DocumentResult_Decode_precedence_witness:
  "DocumentResult_Decode (listCursor None) \<lparr> err = Some (Error ''op''), cur = [7] \<rparr> (Some 0)
     = (Some (Error ''op''), [7], Some 0) \<and>
   DocumentResult_Decode (listCursor (Some (Error ''net''))) \<lparr> err = None, cur = [] \<rparr> (Some 0)
     = (Some (Error ''net''), [], Some 0) \<and>
   DocumentResult_Decode (listCursor None) \<lparr> err = None, cur = [] \<rparr> (Some 0)
     = (Some ErrNoDocuments, [], Some 0) \<and>
   DocumentResult_Decode (listCursor None) \<lparr> err = None, cur = [7] \<rparr> None
     = (None, [7], None)"
proof -
  have a: "DocumentResult_Decode (listCursor None) \<lparr> err = Some (Error ''op''), cur = [7] \<rparr> (Some 0)
     = (Some (Error ''op''), [7], Some 0)"
    using DocumentResult_Decode_precedence
      [of "\<lparr> err = Some (Error ''op''), cur = [7::nat] \<rparr>" "listCursor None" "Some 0"]
    by simp
  have b: "DocumentResult_Decode (listCursor (Some (Error ''net''))) \<lparr> err = None, cur = [] \<rparr> (Some 0)
     = (Some (Error ''net''), [], Some 0)"
    using DocumentResult_Decode_precedence
      [of "\<lparr> err = None, cur = [] \<rparr>" "listCursor (Some (Error ''net''))" "Some 0"]
    by (simp add: listCursor_def)
  have c: "DocumentResult_Decode (listCursor None) \<lparr> err = None, cur = [] \<rparr> (Some 0)
     = (Some ErrNoDocuments, [], Some 0)"
    using DocumentResult_Decode_precedence
      [of "\<lparr> err = None, cur = [] \<rparr>" "listCursor None" "Some 0"]
    by (simp add: listCursor_def)
  have d: "DocumentResult_Decode (listCursor None) \<lparr> err = None, cur = [7] \<rparr> None
     = (None, [7], None)"
    using DocumentResult_Decode_precedence
      [of "\<lparr> err = None, cur = [7::nat] \<rparr>" "listCursor None" "None"]
    by (simp add: listCursor_def)
  from a b c d show ?thesis by simp
qed

end
